theory Spec2Isabelle
  imports Complex_Main
begin

section \<open>Values, errors and the trace of library calls\<close>

text \<open>
  The adapters of \<^verbatim>\<open>river_torch/regression/regressor.py\<close> are embedded as state
  transformers. A method takes the adapter object and returns its result together with the
  adapter as the method left it; a raised exception is the result \<open>Inl e\<close>, and the
  adapter keeps every mutation made before the raise, as a Python object does.
\<close>

datatype error = TypeError | ValueError | AttributeError | RuntimeError

text \<open>A feature value or a target: a number, or anything else.\<close>

datatype pyval = Num real | Other string

text \<open>A feature map is a Python dict: insertion-ordered pairs of key and value.\<close>

type_synonym features = "(string \<times> pyval) list"

type_synonym tensor = "real list list"

text \<open>\<^verbatim>\<open>return self\<close>: the returned object is the adapter, which the model passes on as state.\<close>

datatype self_ref = Self

text \<open>
  Ghost trace: every call into the network library is recorded, in order, in the field
  \<open>calls\<close> of the adapter. \<open>Forward m t\<close> is a forward pass on tensor \<open>t\<close> with the
  training flag \<open>m\<close>; \<open>Loss t\<close> is a loss computation against the target tensor \<open>t\<close>.
\<close>

datatype event =
    Construct nat
  | Train
  | Eval
  | ZeroGrad
  | Forward bool tensor
  | Loss tensor
  | Backward
  | Step

fun is_Construct :: "event \<Rightarrow> bool" where
  "is_Construct (Construct n) = True"
| "is_Construct e = False"

fun is_Forward :: "event \<Rightarrow> bool" where
  "is_Forward (Forward m t) = True"
| "is_Forward e = False"

section \<open>The external capabilities\<close>

text \<open>
  The network object: its trainable parameters, the gradients accumulated on them
  (\<open>None\<close> after a reset) and the training-mode flag.
\<close>

record ('p, 'g) network =
  params :: 'p
  grads :: "'g option"
  training :: bool

text \<open>
  The network library and the caller-supplied builders are parameters of the model:
  \<open>build_fn\<close> builds a network from the input width, \<open>optimizer_fn\<close> an optimizer from
  the parameters and the learning rate, \<open>net_forward\<close> is the forward pass (a function of
  the parameters, the mode and the input), \<open>tensor_item\<close> is \<^verbatim>\<open>.item()\<close>,
  \<open>loss_fn\<close> the loss, \<open>loss_backward\<close> accumulates the gradients of a loss and
  \<open>opt_step\<close> applies the accumulated gradients to the parameters.
\<close>

record ('p, 'g, 'o, 'out, 'l) torch =
  build_fn :: "nat \<Rightarrow> error + 'p"
  optimizer_fn :: "'p \<Rightarrow> real \<Rightarrow> error + 'o"
  net_forward :: "'p \<Rightarrow> bool \<Rightarrow> tensor \<Rightarrow> error + 'out"
  tensor_item :: "'out \<Rightarrow> error + real"
  loss_fn :: "'out \<Rightarrow> tensor \<Rightarrow> error + 'l"
  loss_backward :: "'l \<Rightarrow> 'g option \<Rightarrow> error + 'g"
  opt_step :: "'o \<Rightarrow> 'p \<Rightarrow> 'g option \<Rightarrow> 'o \<times> 'p"

section \<open>Converters\<close>

fun numeric :: "pyval \<Rightarrow> bool" where
  "numeric (Num r) = True"
| "numeric (Other s) = False"

fun num_of :: "pyval \<Rightarrow> real" where
  "num_of (Num r) = r"
| "num_of (Other s) = 0"

text \<open>\<^verbatim>\<open>list(x.values())\<close> on a dict.\<close>

definition dict_values :: "features \<Rightarrow> pyval list" where
  "dict_values x = map snd x"

text \<open>
  Modelled from the spec: \<^verbatim>\<open>river_torch.utils.river_compat.dict2tensor\<close> is not among the
  sources. A feature map becomes a 1 x F tensor in iteration order; a non-numeric value
  is a type error.
\<close>

definition dict2tensor :: "features \<Rightarrow> string \<Rightarrow> error + tensor" where
  "dict2tensor x dev =
     (if list_all numeric (dict_values x) then Inr [map num_of (dict_values x)]
      else Inl TypeError)"

text \<open>
  Modelled from the spec: \<^verbatim>\<open>river_compat.list2tensor\<close> is not among the sources. An
  ordered sequence of value lists becomes an N x F tensor; rows of unequal length and
  non-numeric values fail.
\<close>

definition list2tensor :: "pyval list list \<Rightarrow> string \<Rightarrow> error + tensor" where
  "list2tensor rows dev =
     (case rows of
        [] \<Rightarrow> Inr []
      | r0 # rs \<Rightarrow>
          if \<not> list_all (\<lambda>r. length r = length r0) rs then Inl ValueError
          else if \<not> list_all (list_all numeric) rows then Inl TypeError
          else Inr (map (map num_of) rows))"

text \<open>
  Modelled from the spec: \<^verbatim>\<open>river_compat.scalar2tensor\<close> is not among the sources. A
  single numeric value becomes a 1-element tensor.
\<close>

definition scalar2tensor :: "pyval \<Rightarrow> string \<Rightarrow> error + tensor" where
  "scalar2tensor y dev = (case y of Num r \<Rightarrow> Inr [[r]] | Other s \<Rightarrow> Inl TypeError)"

section \<open>The adapter objects\<close>

record ('p, 'g, 'o) estimator =
  net :: "('p, 'g) network option"
  optimizer :: "'o option"
  device :: string
  learning_rate :: real
  calls :: "event list"

record ('p, 'g, 'o) rolling_estimator = "('p, 'g, 'o) estimator" +
  x_window :: "pyval list list"
  window_size :: nat
  append_predict :: bool

text \<open>
  Modelled from the spec: the constructors are in \<^verbatim>\<open>river_torch.base\<close>, which is not among
  the sources. A new adapter is Uninitialized (no network, no optimizer); a new rolling
  adapter has an empty window buffer.
\<close>

definition Regressor :: "real \<Rightarrow> string \<Rightarrow> ('p, 'g, 'o) estimator" where
  "Regressor lr dev =
     \<lparr>net = None, optimizer = None, device = dev, learning_rate = lr, calls = []\<rparr>"

definition RollingRegressor ::
  "real \<Rightarrow> string \<Rightarrow> nat \<Rightarrow> bool \<Rightarrow> ('p, 'g, 'o) rolling_estimator" where
  "RollingRegressor lr dev ws ap =
     \<lparr>net = None, optimizer = None, device = dev, learning_rate = lr, calls = [],
      x_window = [], window_size = ws, append_predict = ap\<rparr>"

text \<open>
  Modelled from the spec: \<^verbatim>\<open>DeepEstimator._init_net\<close> is in \<^verbatim>\<open>river_torch.base\<close>, which is
  not among the sources. The network is built from the observed width and the optimizer
  from its parameters and the learning rate; if either builder raises, the error
  propagates and the adapter remains Uninitialized. A new network has no gradients and is
  in training mode.
\<close>

definition init_net ::
  "('p, 'g, 'o, 'out, 'l) torch \<Rightarrow> nat \<Rightarrow> ('p, 'g, 'o, 'z) estimator_scheme
   \<Rightarrow> (error + unit) \<times> ('p, 'g, 'o, 'z) estimator_scheme" where
  "init_net T n s =
     (case build_fn T n of
        Inl e \<Rightarrow> (Inl e, s)
      | Inr p \<Rightarrow>
          (case optimizer_fn T p (learning_rate s) of
             Inl e \<Rightarrow> (Inl e, s)
           | Inr opt \<Rightarrow>
               (Inr (),
                s\<lparr>net := Some \<lparr>params = p, grads = None, training = True\<rparr>,
                  optimizer := Some opt,
                  calls := calls s @ [Construct n]\<rparr>)))"

text \<open>
  Modelled from the spec: the window buffer is declared in \<^verbatim>\<open>river_torch.base\<close>, which is
  not among the sources. It is an ordered sequence that is never trimmed: an append adds
  the row at the end, also when the buffer already holds \<open>window_size\<close> rows.
\<close>

definition window_append :: "pyval list list \<Rightarrow> pyval list \<Rightarrow> pyval list list" where
  "window_append w r = w @ [r]"

section \<open>Statements shared by the methods\<close>

text \<open>The guard \<^verbatim>\<open>if self.net is None: self._init_net(len(x))\<close> that opens every method.\<close>

definition ensure_net ::
  "('p, 'g, 'o, 'out, 'l) torch \<Rightarrow> features \<Rightarrow> ('p, 'g, 'o, 'z) estimator_scheme
   \<Rightarrow> (error + unit) \<times> ('p, 'g, 'o, 'z) estimator_scheme" where
  "ensure_net T x s = (if net s = None then init_net T (length x) s else (Inr (), s))"

text \<open>
  \<^verbatim>\<open>self.net.train()\<close> and \<^verbatim>\<open>self.net.eval()\<close>. On an adapter without a network the
  attribute lookup on \<^verbatim>\<open>None\<close> raises \<^verbatim>\<open>AttributeError\<close>, and calling \<^verbatim>\<open>None\<close> raises
  \<^verbatim>\<open>TypeError\<close>; the statements below say so.
\<close>

definition net_train ::
  "('p, 'g, 'o, 'z) estimator_scheme \<Rightarrow> (error + unit) \<times> ('p, 'g, 'o, 'z) estimator_scheme" where
  "net_train s =
     (case net s of
        None \<Rightarrow> (Inl AttributeError, s)
      | Some n \<Rightarrow> (Inr (), s\<lparr>net := Some (n\<lparr>training := True\<rparr>), calls := calls s @ [Train]\<rparr>))"

definition net_eval ::
  "('p, 'g, 'o, 'z) estimator_scheme \<Rightarrow> (error + unit) \<times> ('p, 'g, 'o, 'z) estimator_scheme" where
  "net_eval s =
     (case net s of
        None \<Rightarrow> (Inl AttributeError, s)
      | Some n \<Rightarrow> (Inr (), s\<lparr>net := Some (n\<lparr>training := False\<rparr>), calls := calls s @ [Eval]\<rparr>))"

text \<open>\<^verbatim>\<open>self.net(x)\<close>: the forward pass, with the parameters and the mode the network has.\<close>

definition net_call ::
  "('p, 'g, 'o, 'out, 'l) torch \<Rightarrow> tensor \<Rightarrow> ('p, 'g, 'o, 'z) estimator_scheme
   \<Rightarrow> (error + 'out) \<times> ('p, 'g, 'o, 'z) estimator_scheme" where
  "net_call T xt s =
     (case net s of
        None \<Rightarrow> (Inl TypeError, s)
      | Some n \<Rightarrow>
          (net_forward T (params n) (training n) xt,
           s\<lparr>calls := calls s @ [Forward (training n) xt]\<rparr>))"

text \<open>\<^verbatim>\<open>self.optimizer.zero_grad()\<close>: resets the gradients accumulated on the parameters.\<close>

definition optimizer_zero_grad ::
  "('p, 'g, 'o, 'z) estimator_scheme \<Rightarrow> (error + unit) \<times> ('p, 'g, 'o, 'z) estimator_scheme" where
  "optimizer_zero_grad s =
     (case optimizer s of
        None \<Rightarrow> (Inl AttributeError, s)
      | Some opt \<Rightarrow>
          (Inr (),
           s\<lparr>net := map_option (\<lambda>n. n\<lparr>grads := None\<rparr>) (net s),
             calls := calls s @ [ZeroGrad]\<rparr>))"

text \<open>\<^verbatim>\<open>self.loss_fn(y_pred, y)\<close>.\<close>

definition self_loss_fn ::
  "('p, 'g, 'o, 'out, 'l) torch \<Rightarrow> 'out \<Rightarrow> tensor \<Rightarrow> ('p, 'g, 'o, 'z) estimator_scheme
   \<Rightarrow> (error + 'l) \<times> ('p, 'g, 'o, 'z) estimator_scheme" where
  "self_loss_fn T y_pred yt s = (loss_fn T y_pred yt, s\<lparr>calls := calls s @ [Loss yt]\<rparr>)"

text \<open>\<^verbatim>\<open>loss.backward()\<close>: on success the gradients are accumulated on the parameters.\<close>

definition backward ::
  "('p, 'g, 'o, 'out, 'l) torch \<Rightarrow> 'l \<Rightarrow> ('p, 'g, 'o, 'z) estimator_scheme
   \<Rightarrow> (error + unit) \<times> ('p, 'g, 'o, 'z) estimator_scheme" where
  "backward T loss s =
     (case net s of
        None \<Rightarrow> (Inl AttributeError, s)
      | Some n \<Rightarrow>
          (case loss_backward T loss (grads n) of
             Inl e \<Rightarrow> (Inl e, s\<lparr>calls := calls s @ [Backward]\<rparr>)
           | Inr g \<Rightarrow>
               (Inr (),
                s\<lparr>net := Some (n\<lparr>grads := Some g\<rparr>), calls := calls s @ [Backward]\<rparr>)))"

text \<open>\<^verbatim>\<open>self.optimizer.step()\<close>: the only statement that writes the parameters.\<close>

definition optimizer_step ::
  "('p, 'g, 'o, 'out, 'l) torch \<Rightarrow> ('p, 'g, 'o, 'z) estimator_scheme
   \<Rightarrow> (error + unit) \<times> ('p, 'g, 'o, 'z) estimator_scheme" where
  "optimizer_step T s =
     (case optimizer s of
        None \<Rightarrow> (Inl AttributeError, s)
      | Some opt \<Rightarrow>
          (case net s of
             None \<Rightarrow> (Inl AttributeError, s)
           | Some n \<Rightarrow>
               (case opt_step T opt (params n) (grads n) of
                  (opt', p') \<Rightarrow>
                    (Inr (),
                     s\<lparr>net := Some (n\<lparr>params := p'\<rparr>),
                       optimizer := Some opt',
                       calls := calls s @ [Step]\<rparr>))))"

section \<open>Regressor\<close>

text \<open>\<^verbatim>\<open>Regressor._learn_one\<close>.\<close>

definition learn_one_step ::
  "('p, 'g, 'o, 'out, 'l) torch \<Rightarrow> tensor \<Rightarrow> tensor \<Rightarrow> ('p, 'g, 'o, 'z) estimator_scheme
   \<Rightarrow> (error + unit) \<times> ('p, 'g, 'o, 'z) estimator_scheme" where
  "learn_one_step T xt yt s =
     (case optimizer_zero_grad s of
        (Inl e, s1) \<Rightarrow> (Inl e, s1)
      | (Inr u, s1) \<Rightarrow>
          (case net_call T xt s1 of
             (Inl e, s2) \<Rightarrow> (Inl e, s2)
           | (Inr y_pred, s2) \<Rightarrow>
               (case self_loss_fn T y_pred yt s2 of
                  (Inl e, s3) \<Rightarrow> (Inl e, s3)
                | (Inr loss, s3) \<Rightarrow>
                    (case backward T loss s3 of
                       (Inl e, s4) \<Rightarrow> (Inl e, s4)
                     | (Inr u, s4) \<Rightarrow> optimizer_step T s4))))"

text \<open>\<^verbatim>\<open>Regressor.learn_one\<close>.\<close>

definition learn_one ::
  "('p, 'g, 'o, 'out, 'l) torch \<Rightarrow> features \<Rightarrow> pyval \<Rightarrow> ('p, 'g, 'o) estimator
   \<Rightarrow> (error + self_ref) \<times> ('p, 'g, 'o) estimator" where
  "learn_one T x y s =
     (case ensure_net T x s of
        (Inl e, s0) \<Rightarrow> (Inl e, s0)
      | (Inr u, s0) \<Rightarrow>
          (case dict2tensor x (device s0) of
             Inl e \<Rightarrow> (Inl e, s0)
           | Inr xt \<Rightarrow>
               (case scalar2tensor y (device s0) of
                  Inl e \<Rightarrow> (Inl e, s0)
                | Inr yt \<Rightarrow>
                    (case net_train s0 of
                       (Inl e, s1) \<Rightarrow> (Inl e, s1)
                     | (Inr u, s1) \<Rightarrow>
                         (case learn_one_step T xt yt s1 of
                            (Inl e, s2) \<Rightarrow> (Inl e, s2)
                          | (Inr u, s2) \<Rightarrow> (Inr Self, s2))))))"

text \<open>\<^verbatim>\<open>Regressor.predict_one\<close>.\<close>

definition predict_one ::
  "('p, 'g, 'o, 'out, 'l) torch \<Rightarrow> features \<Rightarrow> ('p, 'g, 'o) estimator
   \<Rightarrow> (error + real) \<times> ('p, 'g, 'o) estimator" where
  "predict_one T x s =
     (case ensure_net T x s of
        (Inl e, s0) \<Rightarrow> (Inl e, s0)
      | (Inr u, s0) \<Rightarrow>
          (case dict2tensor x (device s0) of
             Inl e \<Rightarrow> (Inl e, s0)
           | Inr xt \<Rightarrow>
               (case net_eval s0 of
                  (Inl e, s1) \<Rightarrow> (Inl e, s1)
                | (Inr u, s1) \<Rightarrow>
                    (case net_call T xt s1 of
                       (Inl e, s2) \<Rightarrow> (Inl e, s2)
                     | (Inr out, s2) \<Rightarrow> (tensor_item T out, s2)))))"

section \<open>RollingRegressor\<close>

text \<open>
  In \<^verbatim>\<open>RollingRegressor.predict_one\<close> the name \<^verbatim>\<open>x\<close> is bound to the feature map on
  entry and rebound to a list of rows later, so the model gives the variable both shapes.
  \<^verbatim>\<open>.values()\<close> exists on a dict only and \<^verbatim>\<open>.append\<close> on a list only; the other
  lookup raises \<^verbatim>\<open>AttributeError\<close>.
\<close>

datatype pyobj = Dict features | Rows "pyval list list"

fun obj_values :: "pyobj \<Rightarrow> error + pyval list" where
  "obj_values (Dict d) = Inr (dict_values d)"
| "obj_values (Rows w) = Inl AttributeError"

fun obj_append :: "pyobj \<Rightarrow> pyval list \<Rightarrow> error + pyobj" where
  "obj_append (Rows w) r = Inr (Rows (w @ [r]))"
| "obj_append (Dict d) r = Inl AttributeError"

fun obj2tensor :: "pyobj \<Rightarrow> string \<Rightarrow> error + tensor" where
  "obj2tensor (Rows w) dev = list2tensor w dev"
| "obj2tensor (Dict d) dev = Inl TypeError"

text \<open>
  The two statements that end the full-window branch of \<^verbatim>\<open>predict_one\<close>:
  \<^verbatim>\<open>self.net.eval(); return self.net(x).item()\<close>.
\<close>

definition eval_and_predict ::
  "('p, 'g, 'o, 'out, 'l) torch \<Rightarrow> tensor \<Rightarrow> ('p, 'g, 'o, 'z) estimator_scheme
   \<Rightarrow> (error + real) \<times> ('p, 'g, 'o, 'z) estimator_scheme" where
  "eval_and_predict T xt s =
     (case net_eval s of
        (Inl e, s1) \<Rightarrow> (Inl e, s1)
      | (Inr u, s1) \<Rightarrow>
          (case net_call T xt s1 of
             (Inl e, s2) \<Rightarrow> (Inl e, s2)
           | (Inr out, s2) \<Rightarrow> (tensor_item T out, s2)))"

text \<open>\<^verbatim>\<open>RollingRegressor.predict_one\<close>.\<close>

definition rolling_predict_one ::
  "('p, 'g, 'o, 'out, 'l) torch \<Rightarrow> features \<Rightarrow> ('p, 'g, 'o) rolling_estimator
   \<Rightarrow> (error + real) \<times> ('p, 'g, 'o) rolling_estimator" where
  "rolling_predict_one T x s =
     (case ensure_net T x s of
        (Inl e, s0) \<Rightarrow> (Inl e, s0)
      | (Inr u, s0) \<Rightarrow>
          if length (x_window s0) = window_size s0 then
            if append_predict s0 then
              (case obj_values (Dict x) of
                 Inl e \<Rightarrow> (Inl e, s0)
               | Inr vs \<Rightarrow>
                   (let s1 = s0\<lparr>x_window := window_append (x_window s0) vs\<rparr> in
                    case list2tensor (x_window s1) (device s1) of
                      Inl e \<Rightarrow> (Inl e, s1)
                    | Inr xt \<Rightarrow> eval_and_predict T xt s1))
            else
              (let x1 = Rows (x_window s0) in
               case obj_values x1 of
                 Inl e \<Rightarrow> (Inl e, s0)
               | Inr vs \<Rightarrow>
                   (case obj_append x1 vs of
                      Inl e \<Rightarrow> (Inl e, s0)
                    | Inr x2 \<Rightarrow>
                        (case obj2tensor x2 (device s0) of
                           Inl e \<Rightarrow> (Inl e, s0)
                         | Inr xt \<Rightarrow> eval_and_predict T xt s0)))
          else (Inr 0, s0))"

text \<open>\<^verbatim>\<open>RollingRegressor._learn_window\<close>.\<close>

definition learn_window ::
  "('p, 'g, 'o, 'out, 'l) torch \<Rightarrow> tensor \<Rightarrow> tensor \<Rightarrow> ('p, 'g, 'o, 'z) estimator_scheme
   \<Rightarrow> (error + unit) \<times> ('p, 'g, 'o, 'z) estimator_scheme" where
  "learn_window T xt yt s =
     (case optimizer_zero_grad s of
        (Inl e, s1) \<Rightarrow> (Inl e, s1)
      | (Inr u, s1) \<Rightarrow>
          (case net_call T xt s1 of
             (Inl e, s2) \<Rightarrow> (Inl e, s2)
           | (Inr y_pred, s2) \<Rightarrow>
               (case self_loss_fn T y_pred yt s2 of
                  (Inl e, s3) \<Rightarrow> (Inl e, s3)
                | (Inr loss, s3) \<Rightarrow>
                    (case backward T loss s3 of
                       (Inl e, s4) \<Rightarrow> (Inl e, s4)
                     | (Inr u, s4) \<Rightarrow> optimizer_step T s4))))"

text \<open>\<^verbatim>\<open>RollingRegressor.learn_one\<close>.\<close>

definition rolling_learn_one ::
  "('p, 'g, 'o, 'out, 'l) torch \<Rightarrow> features \<Rightarrow> pyval \<Rightarrow> ('p, 'g, 'o) rolling_estimator
   \<Rightarrow> (error + self_ref) \<times> ('p, 'g, 'o) rolling_estimator" where
  "rolling_learn_one T x y s =
     (case ensure_net T x s of
        (Inl e, s0) \<Rightarrow> (Inl e, s0)
      | (Inr u, s0) \<Rightarrow>
          (let s1 = s0\<lparr>x_window := window_append (x_window s0) (dict_values x)\<rparr> in
           if length (x_window s1) = window_size s1 then
             (case list2tensor (x_window s1) (device s1) of
                Inl e \<Rightarrow> (Inl e, s1)
              | Inr xt \<Rightarrow>
                  (case scalar2tensor y (device s1) of
                     Inl e \<Rightarrow> (Inl e, s1)
                   | Inr yt \<Rightarrow>
                       (case net_train s1 of
                          (Inl e, s2) \<Rightarrow> (Inl e, s2)
                        | (Inr u, s2) \<Rightarrow>
                            (case learn_window T xt yt s2 of
                               (Inl e, s3) \<Rightarrow> (Inl e, s3)
                             | (Inr u, s3) \<Rightarrow> (Inr Self, s3)))))
           else (Inr Self, s1)))"

section \<open>Sequences of calls\<close>

datatype call = Learn features pyval | Predict features

fun call_features :: "call \<Rightarrow> features" where
  "call_features (Learn x y) = x"
| "call_features (Predict x) = x"

text \<open>
  A caller makes one call after the other on the same adapter; a call that raised leaves
  the adapter as it was at the raise, and the next call starts from there.
\<close>

fun regressor_call ::
  "('p, 'g, 'o, 'out, 'l) torch \<Rightarrow> call \<Rightarrow> ('p, 'g, 'o) estimator \<Rightarrow> ('p, 'g, 'o) estimator" where
  "regressor_call T (Learn x y) s = snd (learn_one T x y s)"
| "regressor_call T (Predict x) s = snd (predict_one T x s)"

fun rolling_call ::
  "('p, 'g, 'o, 'out, 'l) torch \<Rightarrow> call \<Rightarrow> ('p, 'g, 'o) rolling_estimator
   \<Rightarrow> ('p, 'g, 'o) rolling_estimator" where
  "rolling_call T (Learn x y) s = snd (rolling_learn_one T x y s)"
| "rolling_call T (Predict x) s = snd (rolling_predict_one T x s)"

fun regressor_run ::
  "('p, 'g, 'o, 'out, 'l) torch \<Rightarrow> call list \<Rightarrow> ('p, 'g, 'o) estimator \<Rightarrow> ('p, 'g, 'o) estimator" where
  "regressor_run T [] s = s"
| "regressor_run T (c # cs) s = regressor_run T cs (regressor_call T c s)"

fun rolling_run ::
  "('p, 'g, 'o, 'out, 'l) torch \<Rightarrow> call list \<Rightarrow> ('p, 'g, 'o) rolling_estimator
   \<Rightarrow> ('p, 'g, 'o) rolling_estimator" where
  "rolling_run T [] s = s"
| "rolling_run T (c # cs) s = rolling_run T cs (rolling_call T c s)"

text \<open>\<open>predict_one\<close> called \<open>k\<close> times in a row with the same input: the results, in order.\<close>

fun predict_repeat ::
  "('p, 'g, 'o, 'out, 'l) torch \<Rightarrow> features \<Rightarrow> nat \<Rightarrow> ('p, 'g, 'o) estimator
   \<Rightarrow> (error + real) list" where
  "predict_repeat T x 0 s = []"
| "predict_repeat T x (Suc k) s =
     fst (predict_one T x s) # predict_repeat T x k (snd (predict_one T x s))"

section \<open>A concrete network library\<close>

text \<open>
  A small instance of the capabilities, used to run the adapters on concrete inputs: a
  linear model \<open>w * (sum of all entries of the batch)\<close> built for a fixed width, the
  squared error against a 1-element target, and gradient descent with the learning rate.
  The forward pass fails on a row of the wrong width.
\<close>

definition toy_forward :: "real \<times> nat \<Rightarrow> bool \<Rightarrow> tensor \<Rightarrow> error + real \<times> real" where
  "toy_forward p m t =
     (if list_all (\<lambda>r. length r = snd p) t
      then Inr (fst p * sum_list (concat t), sum_list (concat t))
      else Inl RuntimeError)"

definition toy_loss :: "real \<times> real \<Rightarrow> tensor \<Rightarrow> error + real" where
  "toy_loss out yt =
     (case yt of
        [[y]] \<Rightarrow> Inr (2 * (fst out - y) * snd out)
      | _ \<Rightarrow> Inl RuntimeError)"

definition toy_backward :: "real \<Rightarrow> real option \<Rightarrow> error + real" where
  "toy_backward l g = Inr (case g of None \<Rightarrow> l | Some g0 \<Rightarrow> g0 + l)"

definition toy_step :: "real \<times> nat \<Rightarrow> real \<times> nat \<Rightarrow> real option \<Rightarrow> (real \<times> nat) \<times> (real \<times> nat)" where
  "toy_step opt p g =
     ((fst opt, Suc (snd opt)),
      (case g of None \<Rightarrow> fst p | Some d \<Rightarrow> fst p - fst opt * d, snd p))"

definition toy :: "(real \<times> nat, real, real \<times> nat, real \<times> real, real) torch" where
  "toy =
     \<lparr>build_fn = (\<lambda>n. Inr (1, n)),
      optimizer_fn = (\<lambda>p lr. Inr (lr, 0)),
      net_forward = toy_forward,
      tensor_item = (\<lambda>out. Inr (fst out)),
      loss_fn = toy_loss,
      loss_backward = toy_backward,
      opt_step = toy_step\<rparr>"

text \<open>The same library with a network builder that always raises.\<close>

definition toy_unbuildable :: "(real \<times> nat, real, real \<times> nat, real \<times> real, real) torch" where
  "toy_unbuildable = toy\<lparr>build_fn := (\<lambda>n. Inl ValueError)\<rparr>"

text \<open>Adapters as a caller creates them, over the concrete library.\<close>

definition fresh_regressor :: "(real \<times> nat, real, real \<times> nat) estimator" where
  "fresh_regressor = Regressor (1 / 10) ''cpu''"

definition fresh_rolling :: "nat \<Rightarrow> bool \<Rightarrow> (real \<times> nat, real, real \<times> nat) rolling_estimator" where
  "fresh_rolling ws ap = RollingRegressor (1 / 10) ''cpu'' ws ap"

text \<open>
  States reached by a caller. \<open>ready_regressor\<close>: one prediction was made.
  \<open>trained_regressor\<close>: one example was learnt, then one prediction was made.
  \<open>one_buffered\<close>: a rolling adapter after its first \<open>learn_one\<close>. \<open>spec_scenario\<close>: the
  example of the specification, window size 2 after \<open>learn_one({a:1}, 10)\<close> and
  \<open>learn_one({a:2}, 20)\<close>. \<open>overgrown\<close>: the same with \<open>append_predict\<close> enabled, after
  \<open>predict_one({a:3})\<close>.
\<close>

definition ready_regressor :: "(real \<times> nat, real, real \<times> nat) estimator" where
  "ready_regressor = regressor_run toy [Predict [(''a'', Num 1)]] fresh_regressor"

definition trained_regressor :: "(real \<times> nat, real, real \<times> nat) estimator" where
  "trained_regressor =
     regressor_run toy [Learn [(''a'', Num 2)] (Num 10), Predict [(''a'', Num 1)]]
       fresh_regressor"

definition one_buffered :: "nat \<Rightarrow> bool \<Rightarrow> (real \<times> nat, real, real \<times> nat) rolling_estimator" where
  "one_buffered ws ap = rolling_run toy [Learn [(''a'', Num 1)] (Num 10)] (fresh_rolling ws ap)"

definition spec_scenario :: "bool \<Rightarrow> (real \<times> nat, real, real \<times> nat) rolling_estimator" where
  "spec_scenario ap =
     rolling_run toy [Learn [(''a'', Num 1)] (Num 10), Learn [(''a'', Num 2)] (Num 20)]
       (fresh_rolling 2 ap)"

definition overgrown :: "(real \<times> nat, real, real \<times> nat) rolling_estimator" where
  "overgrown =
     rolling_run toy
       [Learn [(''a'', Num 1)] (Num 10), Learn [(''a'', Num 2)] (Num 20),
        Predict [(''a'', Num 3)]]
       (fresh_rolling 2 True)"

section \<open>Properties of the trace\<close>

text \<open>
  \<open>constructed_once n tr\<close>: the trace begins with the construction of a network of input
  width \<open>n\<close>, and no other construction follows. \<open>construct_precedes_use tr\<close>: either no
  library call was made at all, or the first one is the only construction.
\<close>

definition constructed_once :: "nat \<Rightarrow> event list \<Rightarrow> bool" where
  "constructed_once n tr =
     (case tr of [] \<Rightarrow> False | e # es \<Rightarrow> e = Construct n \<and> filter is_Construct es = [])"

definition construct_precedes_use :: "event list \<Rightarrow> bool" where
  "construct_precedes_use tr =
     (case tr of [] \<Rightarrow> True | e # es \<Rightarrow> is_Construct e \<and> filter is_Construct es = [])"

text \<open>The two states of the lazy initialisation, Uninitialized and Ready.\<close>

definition unbuilt :: "('p, 'g, 'o, 'z) estimator_scheme \<Rightarrow> bool" where
  "unbuilt s = (net s = None \<and> optimizer s = None \<and> calls s = [])"

definition built :: "nat \<Rightarrow> ('p, 'g, 'o, 'z) estimator_scheme \<Rightarrow> bool" where
  "built n s = (net s \<noteq> None \<and> optimizer s \<noteq> None \<and> constructed_once n (calls s))"

section \<open>The guard\<close>

lemma ensure_net_ready: "net s = Some n \<Longrightarrow> ensure_net T x s = (Inr (), s)"
  by (simp add: ensure_net_def)

lemma ensure_net_raises: "ensure_net T x s = (Inl e, s0) \<Longrightarrow> s0 = s \<and> net s = None"
  by (auto simp: ensure_net_def init_net_def split: if_splits sum.splits)

lemma ensure_net_cases:
  assumes "ensure_net T x s = (Inr u, s0)"
  shows "(net s \<noteq> None \<and> s0 = s) \<or>
         (net s = None \<and>
          (\<exists>p opt. build_fn T (length x) = Inr p \<and>
             optimizer_fn T p (learning_rate s) = Inr opt \<and>
             s0 = s\<lparr>net := Some \<lparr>params = p, grads = None, training = True\<rparr>,
                    optimizer := Some opt,
                    calls := calls s @ [Construct (length x)]\<rparr>))"
  using assms by (auto simp: ensure_net_def init_net_def split: if_splits sum.splits)

lemma ensure_net_window:
  assumes "ensure_net T x s = (r, s0)"
  shows "x_window s0 = x_window s \<and> window_size s0 = window_size s \<and>
         append_predict s0 = append_predict s \<and> device s0 = device s"
  using assms by (auto simp: ensure_net_def init_net_def split: if_splits sum.splits)

section \<open>The training step\<close>

lemma learn_one_step_ok:
  assumes "net s = Some n" "optimizer s = Some opt"
    "net_forward T (params n) (training n) xt = Inr out"
    "loss_fn T out yt = Inr l"
    "loss_backward T l None = Inr g"
  shows "learn_one_step T xt yt s =
           (Inr (),
            s\<lparr>net := Some (n\<lparr>params := snd (opt_step T opt (params n) (Some g)), grads := Some g\<rparr>),
              optimizer := Some (fst (opt_step T opt (params n) (Some g))),
              calls := calls s @ [ZeroGrad, Forward (training n) xt, Loss yt, Backward, Step]\<rparr>)"
  using assms
  by (simp add: learn_one_step_def optimizer_zero_grad_def net_call_def self_loss_fn_def
      backward_def optimizer_step_def split: prod.splits)

lemma learn_window_eq: "learn_window T xt yt s = learn_one_step T xt yt s"
  by (simp add: learn_window_def learn_one_step_def)

lemma learn_one_step_frame:
  assumes "learn_one_step T xt yt s = (r, s')"
  shows "x_window s' = x_window s \<and> window_size s' = window_size s \<and>
         append_predict s' = append_predict s"
  using assms
  by (auto simp: learn_one_step_def optimizer_zero_grad_def net_call_def self_loss_fn_def
      backward_def optimizer_step_def split: option.splits sum.splits prod.splits)

lemma net_train_frame:
  assumes "net_train s = (r, s')"
  shows "x_window s' = x_window s \<and> window_size s' = window_size s \<and>
         append_predict s' = append_predict s"
  using assms by (auto simp: net_train_def split: option.splits)

lemma rolling_learn_one_not_full:
  assumes "ensure_net T x s = (Inr (), s0)" "length (x_window s) + 1 \<noteq> window_size s"
  shows "rolling_learn_one T x y s = (Inr Self, s0\<lparr>x_window := x_window s @ [dict_values x]\<rparr>)"
  using assms ensure_net_window [OF assms(1)]
  by (simp add: rolling_learn_one_def window_append_def)

lemma rolling_learn_one_full:
  assumes "ensure_net T x s = (Inr (), s0)" "length (x_window s) + 1 = window_size s"
  shows "rolling_learn_one T x y s =
    (let s1 = s0\<lparr>x_window := x_window s @ [dict_values x]\<rparr> in
     case list2tensor (x_window s @ [dict_values x]) (device s) of
       Inl e \<Rightarrow> (Inl e, s1)
     | Inr xt \<Rightarrow>
         (case scalar2tensor y (device s) of
            Inl e \<Rightarrow> (Inl e, s1)
          | Inr yt \<Rightarrow>
              (case net_train s1 of
                 (Inl e, s2) \<Rightarrow> (Inl e, s2)
               | (Inr u, s2) \<Rightarrow>
                   (case learn_one_step T xt yt s2 of
                      (Inl e, s3) \<Rightarrow> (Inl e, s3)
                    | (Inr u, s3) \<Rightarrow> (Inr Self, s3)))))"
  using assms ensure_net_window [OF assms(1)]
  by (simp add: rolling_learn_one_def window_append_def learn_window_eq Let_def
      cong: sum.case_cong prod.case_cong)

lemma rolling_learn_one_appends:
  assumes "ensure_net T x s = (Inr (), s0)"
  shows "x_window (snd (rolling_learn_one T x y s)) = x_window s @ [dict_values x]"
proof (cases "length (x_window s) + 1 = window_size s")
  case False
  then show ?thesis using rolling_learn_one_not_full [OF assms] by simp
next
  case True
  show ?thesis
    by (auto simp: rolling_learn_one_full [OF assms True] Let_def
        split: sum.splits prod.splits
        dest!: net_train_frame learn_one_step_frame)
qed

section \<open>Prediction on the window\<close>

lemma eval_and_predict_ready:
  assumes "net s = Some n"
  shows "eval_and_predict T xt s =
           (case net_forward T (params n) False xt of
              Inl e \<Rightarrow> Inl e
            | Inr out \<Rightarrow> tensor_item T out,
            s\<lparr>net := Some (n\<lparr>training := False\<rparr>),
              calls := calls s @ [Eval, Forward False xt]\<rparr>)"
  using assms
  by (simp add: eval_and_predict_def net_eval_def net_call_def split: sum.splits)

lemma eval_and_predict_frame:
  assumes "eval_and_predict T xt s = (r, s')"
  shows "x_window s' = x_window s \<and> window_size s' = window_size s \<and>
         append_predict s' = append_predict s"
  using assms
  by (auto simp: eval_and_predict_def net_eval_def net_call_def
      split: option.splits sum.splits prod.splits)

lemma eval_and_predict_window:
  "x_window (snd (eval_and_predict T xt s)) = x_window s"
  using eval_and_predict_frame [of T xt s "fst (eval_and_predict T xt s)"
      "snd (eval_and_predict T xt s)"]
  by simp

lemma rolling_predict_one_not_full:
  assumes "ensure_net T x s = (Inr (), s0)" "length (x_window s) \<noteq> window_size s"
  shows "rolling_predict_one T x s = (Inr 0, s0)"
  using assms ensure_net_window [OF assms(1)]
  by (simp add: rolling_predict_one_def)

lemma rolling_predict_one_append_branch:
  assumes "ensure_net T x s = (Inr (), s0)" "length (x_window s) = window_size s"
    "append_predict s"
  shows "rolling_predict_one T x s =
           (case list2tensor (x_window s @ [dict_values x]) (device s) of
              Inl e \<Rightarrow> (Inl e, s0\<lparr>x_window := x_window s @ [dict_values x]\<rparr>)
            | Inr xt \<Rightarrow>
                eval_and_predict T xt (s0\<lparr>x_window := x_window s @ [dict_values x]\<rparr>))"
  using assms ensure_net_window [OF assms(1)]
  by (simp add: rolling_predict_one_def window_append_def Let_def cong: sum.case_cong)

lemma ensure_net_no_forward:
  assumes "ensure_net T x s = (r, s0)"
  shows "filter is_Forward (calls s0) = filter is_Forward (calls s)"
  using assms by (auto simp: ensure_net_def init_net_def split: if_splits sum.splits)

section \<open>Prediction with the single-example adapter\<close>

lemma predict_one_ready:
  assumes "net s = Some n"
  shows "predict_one T x s =
           (case dict2tensor x (device s) of
              Inl e \<Rightarrow> (Inl e, s)
            | Inr xt \<Rightarrow>
                (case net_forward T (params n) False xt of
                   Inl e \<Rightarrow> Inl e
                 | Inr out \<Rightarrow> tensor_item T out,
                 s\<lparr>net := Some (n\<lparr>training := False\<rparr>),
                   calls := calls s @ [Eval, Forward False xt]\<rparr>))"
  using assms
  by (simp add: predict_one_def ensure_net_ready net_eval_def net_call_def
      split: sum.splits)

lemma predict_one_keeps:
  assumes "net s = Some n"
  shows "\<exists>n'. net (snd (predict_one T x s)) = Some n' \<and> params n' = params n \<and>
           grads n' = grads n \<and>
           optimizer (snd (predict_one T x s)) = optimizer s \<and>
           device (snd (predict_one T x s)) = device s"
  by (simp add: predict_one_ready [OF assms] assms split: sum.splits)

lemma predict_one_result_depends:
  assumes "net s = Some n" "net s' = Some n'" "params n' = params n" "device s' = device s"
  shows "fst (predict_one T x s') = fst (predict_one T x s)"
  by (simp add: predict_one_ready [OF assms(1)] predict_one_ready [OF assms(2)] assms(3,4)
      split: sum.splits)

lemma predict_repeat_same:
  assumes "net s = Some n"
  shows "predict_repeat T x k s = replicate k (fst (predict_one T x s))"
  using assms
proof (induction k arbitrary: s n)
  case 0
  then show ?case by simp
next
  case (Suc k)
  obtain n' where n': "net (snd (predict_one T x s)) = Some n'" "params n' = params n"
    "device (snd (predict_one T x s)) = device s"
    using predict_one_keeps [OF Suc.prems, of T x] by blast
  have "fst (predict_one T x (snd (predict_one T x s))) = fst (predict_one T x s)"
    using predict_one_result_depends [OF Suc.prems n'] .
  then show ?case
    using Suc.IH [OF n'(1)] by simp
qed

section \<open>A call that raises\<close>

lemma ensure_net_no_step:
  assumes "ensure_net T x s = (r, s0)"
  shows "count_list (calls s0) Step = count_list (calls s) Step"
  using assms by (auto simp: ensure_net_def init_net_def split: if_splits sum.splits)

lemma net_train_keeps:
  assumes "net_train s = (r, s')"
  shows "optimizer s' = optimizer s \<and> map_option params (net s') = map_option params (net s) \<and>
         count_list (calls s') Step = count_list (calls s) Step"
  using assms by (auto simp: net_train_def split: option.splits)

lemma learn_one_step_raises:
  assumes "learn_one_step T xt yt s = (Inl e, s')"
  shows "optimizer s' = optimizer s \<and> map_option params (net s') = map_option params (net s) \<and>
         count_list (calls s') Step = count_list (calls s) Step"
  using assms
  by (auto simp: learn_one_step_def optimizer_zero_grad_def net_call_def self_loss_fn_def
      backward_def optimizer_step_def split: option.splits sum.splits prod.splits)

lemma learn_one_raises_count:
  assumes "learn_one T x y s = (Inl e, s')"
  shows "count_list (calls s') Step = count_list (calls s) Step"
  using assms
  by (auto simp: learn_one_def split: prod.splits sum.splits
      dest!: ensure_net_no_step net_train_keeps learn_one_step_raises)

lemma learn_one_raises_params:
  assumes "learn_one T x y s = (Inl e, s')" "net s = Some n"
  shows "map_option params (net s') = Some (params n) \<and> optimizer s' = optimizer s"
  using assms
  by (auto simp: learn_one_def ensure_net_ready [OF assms(2)] split: prod.splits sum.splits
      dest!: net_train_keeps learn_one_step_raises)

lemma rolling_learn_one_raises_count:
  assumes "rolling_learn_one T x y s = (Inl e, s')"
  shows "count_list (calls s') Step = count_list (calls s) Step"
  using assms
  by (auto simp: rolling_learn_one_def learn_window_eq Let_def
      split: prod.splits sum.splits if_splits
      dest!: ensure_net_no_step net_train_keeps learn_one_step_raises)

lemma rolling_learn_one_raises_params:
  assumes "rolling_learn_one T x y s = (Inl e, s')" "net s = Some n"
  shows "map_option params (net s') = Some (params n) \<and> optimizer s' = optimizer s"
  using assms
  by (auto simp: rolling_learn_one_def learn_window_eq Let_def ensure_net_ready [OF assms(2)]
      split: prod.splits sum.splits if_splits
      dest!: net_train_keeps learn_one_step_raises)

section \<open>A call that only buffers\<close>

lemma rolling_learn_one_ignores_target:
  assumes "length (x_window s) + 1 \<noteq> window_size s"
  shows "rolling_learn_one T x y s = rolling_learn_one T x y' s"
proof (cases "ensure_net T x s")
  case (Pair r s0)
  show ?thesis
  proof (cases r)
    case (Inl e)
    then show ?thesis using Pair by (simp add: rolling_learn_one_def)
  next
    case (Inr u)
    then have g: "ensure_net T x s = (Inr (), s0)" using Pair by simp
    show ?thesis
      using rolling_learn_one_not_full [OF g assms] by simp
  qed
qed

section \<open>A window that has outgrown its size\<close>

lemma overgrown_call:
  assumes "net s = Some n" "window_size s < length (x_window s)"
  shows "rolling_call T c s =
           (case c of
              Learn x y \<Rightarrow> s\<lparr>x_window := x_window s @ [dict_values x]\<rparr>
            | Predict x \<Rightarrow> s)"
proof (cases c)
  case (Learn x y)
  have "length (x_window s) + 1 \<noteq> window_size s" using assms(2) by simp
  then show ?thesis
    using rolling_learn_one_not_full [OF ensure_net_ready [OF assms(1)], of T x y] Learn
    by simp
next
  case (Predict x)
  have "length (x_window s) \<noteq> window_size s" using assms(2) by simp
  then show ?thesis
    using rolling_predict_one_not_full [OF ensure_net_ready [OF assms(1)], of T x] Predict
    by simp
qed

lemma overgrown_run:
  assumes "net s = Some n" "window_size s < length (x_window s)"
  shows "net (rolling_run T cs s) = Some n \<and>
         window_size (rolling_run T cs s) < length (x_window (rolling_run T cs s)) \<and>
         optimizer (rolling_run T cs s) = optimizer s \<and>
         calls (rolling_run T cs s) = calls s"
  using assms
proof (induction cs arbitrary: s)
  case Nil
  then show ?case by simp
next
  case (Cons c cs)
  let ?s' = "rolling_call T c s"
  have s': "net ?s' = Some n \<and> window_size ?s' < length (x_window ?s') \<and>
      optimizer ?s' = optimizer s \<and> calls ?s' = calls s"
    using Cons.prems by (simp add: overgrown_call [OF Cons.prems] split: call.splits)
  then show ?case
    using Cons.IH [of ?s'] by simp
qed

section \<open>Lazy construction\<close>

lemma constructed_once_append:
  assumes "constructed_once n tr" "filter is_Construct new = []"
  shows "constructed_once n (tr @ new)"
  using assms by (cases tr) (auto simp: constructed_once_def)

lemma constructed_once_precedes: "constructed_once n tr \<Longrightarrow> construct_precedes_use tr"
  by (cases tr) (auto simp: constructed_once_def construct_precedes_use_def)

lemma built_net_train:
  assumes "net_train s = (r, s')" "built n s"
  shows "built n s'"
  using assms
  by (auto simp: built_def net_train_def constructed_once_append split: option.splits)

lemma built_eval_and_predict:
  assumes "eval_and_predict T xt s = (r, s')" "built n s"
  shows "built n s'"
  using assms
  by (auto simp: built_def eval_and_predict_def net_eval_def net_call_def
      constructed_once_append split: option.splits sum.splits prod.splits)

lemma built_learn_one_step:
  assumes "learn_one_step T xt yt s = (r, s')" "built n s"
  shows "built n s'"
  using assms
  by (auto simp: built_def learn_one_step_def optimizer_zero_grad_def net_call_def
      self_loss_fn_def backward_def optimizer_step_def constructed_once_append
      split: option.splits sum.splits prod.splits)

lemma built_ensure_net: "built n s \<Longrightarrow> ensure_net T x s = (Inr (), s)"
  by (auto simp: built_def ensure_net_def)

lemma built_window [simp]: "built n (s\<lparr>x_window := w\<rparr>) = built n s"
  by (simp add: built_def)

lemma built_learn_one_result:
  assumes "learn_one T x y s = (r, s')" "built n s"
  shows "built n s'"
  using assms
  by (auto simp: learn_one_def built_ensure_net split: sum.splits prod.splits
      dest: built_net_train built_learn_one_step)

lemma built_predict_one_result:
  assumes "predict_one T x s = (r, s')" "built n s"
  shows "built n s'"
proof -
  have "predict_one T x s =
      (case dict2tensor x (device s) of Inl e \<Rightarrow> (Inl e, s) | Inr xt \<Rightarrow> eval_and_predict T xt s)"
    using assms(2)
    by (simp add: predict_one_def built_ensure_net eval_and_predict_def cong: sum.case_cong)
  then have "(\<exists>e. r = Inl e \<and> s' = s) \<or> (\<exists>xt. eval_and_predict T xt s = (r, s'))"
    using assms(1) by (auto split: sum.splits)
  then show ?thesis
    using assms(2) built_eval_and_predict by blast
qed

lemma built_rolling_learn_one_result:
  assumes "rolling_learn_one T x y s = (r, s')" "built n s"
  shows "built n s'"
  using assms
  by (auto simp: rolling_learn_one_def built_ensure_net learn_window_eq Let_def
      split: sum.splits prod.splits if_splits
      dest: built_net_train built_learn_one_step)

lemma built_rolling_predict_one_result:
  assumes "rolling_predict_one T x s = (r, s')" "built n s"
  shows "built n s'"
  using assms
  by (auto simp: rolling_predict_one_def built_ensure_net Let_def
      split: sum.splits prod.splits if_splits
      dest: built_eval_and_predict)

lemma built_regressor_call: "built n s \<Longrightarrow> built n (regressor_call T c s)"
  using built_learn_one_result [OF prod.collapse [symmetric]]
    built_predict_one_result [OF prod.collapse [symmetric]]
  by (cases c) auto

lemma built_rolling_call: "built n s \<Longrightarrow> built n (rolling_call T c s)"
  using built_rolling_learn_one_result [OF prod.collapse [symmetric]]
    built_rolling_predict_one_result [OF prod.collapse [symmetric]]
  by (cases c) auto

lemma built_regressor_run: "built n s \<Longrightarrow> built n (regressor_run T cs s)"
  by (induction cs arbitrary: s) (auto simp: built_regressor_call)

lemma built_rolling_run: "built n s \<Longrightarrow> built n (rolling_run T cs s)"
  by (induction cs arbitrary: s) (auto simp: built_rolling_call)

lemma ensure_net_unbuilt:
  assumes "unbuilt s" "ensure_net T x s = (r, s0)"
  shows "(s0 = s \<and> (\<exists>e. r = Inl e)) \<or> (r = Inr () \<and> built (length x) s0)"
  using assms
  by (auto simp: unbuilt_def built_def ensure_net_def init_net_def constructed_once_def
      split: sum.splits)

lemma ensure_net_idem:
  assumes "ensure_net T x s = (Inr (), s0)"
  shows "ensure_net T x s0 = (Inr (), s0)"
  using ensure_net_cases [OF assms] by (auto simp: ensure_net_def)

lemma learn_one_guard:
  "ensure_net T x s = (Inr (), s0) \<Longrightarrow> learn_one T x y s = learn_one T x y s0"
  "ensure_net T x s = (Inl e, s0) \<Longrightarrow> learn_one T x y s = (Inl e, s)"
  using ensure_net_idem [of T x s s0] ensure_net_raises [of T x s e s0]
  by (simp_all add: learn_one_def)

lemma predict_one_guard:
  "ensure_net T x s = (Inr (), s0) \<Longrightarrow> predict_one T x s = predict_one T x s0"
  "ensure_net T x s = (Inl e, s0) \<Longrightarrow> predict_one T x s = (Inl e, s)"
  using ensure_net_idem [of T x s s0] ensure_net_raises [of T x s e s0]
  by (simp_all add: predict_one_def)

lemma rolling_learn_one_guard:
  "ensure_net T x s = (Inr (), s0) \<Longrightarrow> rolling_learn_one T x y s = rolling_learn_one T x y s0"
  "ensure_net T x s = (Inl e, s0) \<Longrightarrow> rolling_learn_one T x y s = (Inl e, s)"
  using ensure_net_idem [of T x s s0] ensure_net_raises [of T x s e s0]
  by (simp_all add: rolling_learn_one_def)

lemma rolling_predict_one_guard:
  "ensure_net T x s = (Inr (), s0) \<Longrightarrow> rolling_predict_one T x s = rolling_predict_one T x s0"
  "ensure_net T x s = (Inl e, s0) \<Longrightarrow> rolling_predict_one T x s = (Inl e, s)"
  using ensure_net_idem [of T x s s0] ensure_net_raises [of T x s e s0]
  by (simp_all add: rolling_predict_one_def)

lemma regressor_call_guard:
  "ensure_net T (call_features c) s = (Inr (), s0) \<Longrightarrow>
     regressor_call T c s = regressor_call T c s0"
  "ensure_net T (call_features c) s = (Inl e, s0) \<Longrightarrow> regressor_call T c s = s"
  by (cases c; simp add: learn_one_guard [of T _ s] predict_one_guard [of T _ s])+

lemma rolling_call_guard:
  "ensure_net T (call_features c) s = (Inr (), s0) \<Longrightarrow>
     rolling_call T c s = rolling_call T c s0"
  "ensure_net T (call_features c) s = (Inl e, s0) \<Longrightarrow> rolling_call T c s = s"
  by (cases c; simp add: rolling_learn_one_guard [of T _ s] rolling_predict_one_guard [of T _ s])+

lemma regressor_call_unbuilt:
  assumes "unbuilt s"
  shows "regressor_call T c s = s \<or> built (length (call_features c)) (regressor_call T c s)"
proof -
  obtain r s0 where g: "ensure_net T (call_features c) s = (r, s0)"
    by (cases "ensure_net T (call_features c) s")
  from ensure_net_unbuilt [OF assms g] show ?thesis
  proof
    assume "s0 = s \<and> (\<exists>e. r = Inl e)"
    then obtain e where "ensure_net T (call_features c) s = (Inl e, s0)" using g by auto
    then show ?thesis
      using regressor_call_guard(2) by blast
  next
    assume b: "r = Inr () \<and> built (length (call_features c)) s0"
    then have g': "ensure_net T (call_features c) s = (Inr (), s0)" using g by simp
    have "regressor_call T c s = regressor_call T c s0"
      using g' by (rule regressor_call_guard(1))
    then show ?thesis
      using b built_regressor_call by metis
  qed
qed

lemma rolling_call_unbuilt:
  assumes "unbuilt s"
  shows "rolling_call T c s = s \<or> built (length (call_features c)) (rolling_call T c s)"
proof -
  obtain r s0 where g: "ensure_net T (call_features c) s = (r, s0)"
    by (cases "ensure_net T (call_features c) s")
  from ensure_net_unbuilt [OF assms g] show ?thesis
  proof
    assume "s0 = s \<and> (\<exists>e. r = Inl e)"
    then obtain e where "ensure_net T (call_features c) s = (Inl e, s0)" using g by auto
    then show ?thesis
      using rolling_call_guard(2) by blast
  next
    assume b: "r = Inr () \<and> built (length (call_features c)) s0"
    then have g': "ensure_net T (call_features c) s = (Inr (), s0)" using g by simp
    have "rolling_call T c s = rolling_call T c s0"
      using g' by (rule rolling_call_guard(1))
    then show ?thesis
      using b built_rolling_call by metis
  qed
qed

lemma first_call_builds:
  assumes "unbuilt s" "build_fn T (length x) = Inr p"
    "optimizer_fn T p (learning_rate s) = Inr opt"
  shows "\<exists>s0. ensure_net T x s = (Inr (), s0) \<and> built (length x) s0"
  using assms
  by (simp add: unbuilt_def built_def ensure_net_def init_net_def constructed_once_def)

lemma regressor_first_call:
  assumes "unbuilt s" "build_fn T (length (call_features c)) = Inr p"
    "optimizer_fn T p (learning_rate s) = Inr opt"
  shows "built (length (call_features c)) (regressor_call T c s)"
proof -
  obtain s0 where g: "ensure_net T (call_features c) s = (Inr (), s0)"
    and b: "built (length (call_features c)) s0"
    using first_call_builds [OF assms] by blast
  have "regressor_call T c s = regressor_call T c s0"
    using g by (rule regressor_call_guard(1))
  then show ?thesis using b built_regressor_call by metis
qed

lemma rolling_first_call:
  assumes "unbuilt s" "build_fn T (length (call_features c)) = Inr p"
    "optimizer_fn T p (learning_rate s) = Inr opt"
  shows "built (length (call_features c)) (rolling_call T c s)"
proof -
  obtain s0 where g: "ensure_net T (call_features c) s = (Inr (), s0)"
    and b: "built (length (call_features c)) s0"
    using first_call_builds [OF assms] by blast
  have "rolling_call T c s = rolling_call T c s0"
    using g by (rule rolling_call_guard(1))
  then show ?thesis using b built_rolling_call by metis
qed

lemma regressor_run_unbuilt:
  assumes "unbuilt s"
  shows "regressor_run T cs s = s \<or> (\<exists>n. built n (regressor_run T cs s))"
  using assms
proof (induction cs arbitrary: s)
  case Nil
  then show ?case by simp
next
  case (Cons c cs)
  from regressor_call_unbuilt [OF Cons.prems, of T c] show ?case
  proof
    assume same: "regressor_call T c s = s"
    then show ?thesis using Cons.IH [OF Cons.prems] by simp
  next
    assume "built (length (call_features c)) (regressor_call T c s)"
    then show ?thesis using built_regressor_run by fastforce
  qed
qed

lemma rolling_run_unbuilt:
  assumes "unbuilt s"
  shows "rolling_run T cs s = s \<or> (\<exists>n. built n (rolling_run T cs s))"
  using assms
proof (induction cs arbitrary: s)
  case Nil
  then show ?case by simp
next
  case (Cons c cs)
  from rolling_call_unbuilt [OF Cons.prems, of T c] show ?case
  proof
    assume same: "rolling_call T c s = s"
    then show ?thesis using Cons.IH [OF Cons.prems] by simp
  next
    assume "built (length (call_features c)) (rolling_call T c s)"
    then show ?thesis using built_rolling_run by fastforce
  qed
qed

lemma unbuilt_Regressor: "unbuilt (Regressor lr dev)"
  by (simp add: unbuilt_def Regressor_def)

lemma unbuilt_RollingRegressor: "unbuilt (RollingRegressor lr dev ws ap)"
  by (simp add: unbuilt_def RollingRegressor_def)

section \<open>The concrete states, evaluated\<close>

lemmas run_defs = fresh_rolling_def fresh_regressor_def RollingRegressor_def Regressor_def
  rolling_learn_one_def rolling_predict_one_def learn_one_def predict_one_def
  ensure_net_def init_net_def net_train_def net_eval_def net_call_def
  optimizer_zero_grad_def self_loss_fn_def backward_def optimizer_step_def
  learn_one_step_def learn_window_def eval_and_predict_def window_append_def
  dict2tensor_def list2tensor_def scalar2tensor_def dict_values_def
  toy_def toy_forward_def toy_loss_def toy_backward_def toy_step_def

lemma ready_regressor_eq:
  "ready_regressor =
     \<lparr>net = Some \<lparr>params = (1, 1), grads = None, training = False\<rparr>,
      optimizer = Some (1 / 10, 0), device = ''cpu'', learning_rate = 1 / 10,
      calls = [Construct 1, Eval, Forward False [[1]]]\<rparr>"
  by (simp add: ready_regressor_def run_defs)

lemma trained_regressor_eq:
  "trained_regressor =
     \<lparr>net = Some \<lparr>params = (21 / 5, 1), grads = Some (- 32), training = False\<rparr>,
      optimizer = Some (1 / 10, 1), device = ''cpu'', learning_rate = 1 / 10,
      calls = [Construct 1, Train, ZeroGrad, Forward True [[2]], Loss [[10]], Backward, Step,
         Eval, Forward False [[1]]]\<rparr>"
  by (simp add: trained_regressor_def run_defs)

lemma one_buffered_eq:
  "one_buffered 2 ap =
     \<lparr>net = Some \<lparr>params = (1, 1), grads = None, training = True\<rparr>,
      optimizer = Some (1 / 10, 0), device = ''cpu'', learning_rate = 1 / 10,
      calls = [Construct 1],
      x_window = [[Num 1]], window_size = 2, append_predict = ap\<rparr>"
  "one_buffered 3 ap =
     \<lparr>net = Some \<lparr>params = (1, 1), grads = None, training = True\<rparr>,
      optimizer = Some (1 / 10, 0), device = ''cpu'', learning_rate = 1 / 10,
      calls = [Construct 1],
      x_window = [[Num 1]], window_size = 3, append_predict = ap\<rparr>"
  by (simp_all add: one_buffered_def run_defs)

lemma spec_scenario_eq:
  "spec_scenario ap =
     \<lparr>net = Some \<lparr>params = (56 / 5, 1), grads = Some (- 102), training = True\<rparr>,
      optimizer = Some (1 / 10, 1), device = ''cpu'', learning_rate = 1 / 10,
      calls = [Construct 1, Train, ZeroGrad, Forward True [[1], [2]], Loss [[20]],
         Backward, Step],
      x_window = [[Num 1], [Num 2]], window_size = 2, append_predict = ap\<rparr>"
  by (simp add: spec_scenario_def run_defs)

lemma overgrown_eq:
  "overgrown =
     \<lparr>net = Some \<lparr>params = (56 / 5, 1), grads = Some (- 102), training = False\<rparr>,
      optimizer = Some (1 / 10, 1), device = ''cpu'', learning_rate = 1 / 10,
      calls = [Construct 1, Train, ZeroGrad, Forward True [[1], [2]], Loss [[20]],
         Backward, Step, Eval, Forward False [[1], [2], [3]]],
      x_window = [[Num 1], [Num 2], [Num 3]], window_size = 2, append_predict = True\<rparr>"
  by (simp add: overgrown_def run_defs)

section \<open>Prediction on a copy of the full window\<close>

text \<open>
  Claim C1. With \<open>append_predict\<close> disabled and a full window, \<open>predict_one\<close> is
  specified to return the forward pass on a copy of the buffer with the current example
  appended. The source binds the copy to the name \<^verbatim>\<open>x\<close> and then evaluates
  \<^verbatim>\<open>x.values()\<close> on it, so every such call that gets past the construction guard
  raises \<^verbatim>\<open>AttributeError\<close> and makes no forward pass; the adapter, its buffer included,
  is left as the guard left it. The second theorem is the example of the specification:
  window size 2, buffer \<open>[[1], [2]]\<close>, \<open>predict_one({a:3})\<close>.
\<close>

theorem predict_one_copy_branch_raises:
  assumes "ensure_net T x s = (Inr (), s0)" "length (x_window s) = window_size s"
    "\<not> append_predict s"
  shows "rolling_predict_one T x s = (Inl AttributeError, s0)"
proof -
  have w: "x_window s0 = x_window s" "window_size s0 = window_size s"
    "append_predict s0 = append_predict s"
    using ensure_net_window [OF assms(1)] by simp_all
  have "obj_values (Rows (x_window s0)) = Inl AttributeError"
    by simp
  then show ?thesis
    using assms w by (simp add: rolling_predict_one_def)
qed

theorem predict_one_copy_branch_raises_witness:
  "rolling_predict_one toy [(''a'', Num 3)] (spec_scenario False) =
     (Inl AttributeError, spec_scenario False)"
proof -
  have g: "ensure_net toy [(''a'', Num 3)] (spec_scenario False) =
      (Inr (), spec_scenario False)"
    by (simp add: spec_scenario_eq ensure_net_def)
  have f: "length (x_window (spec_scenario False)) = window_size (spec_scenario False)"
    by (simp add: spec_scenario_eq)
  have a: "\<not> append_predict (spec_scenario False)"
    by (simp add: spec_scenario_eq)
  show ?thesis
    using predict_one_copy_branch_raises [OF g f a] .
qed

section \<open>Buffering and training on the window\<close>

text \<open>
  Claim C2. Every \<open>learn_one\<close> of the rolling adapter that gets past the construction
  guard appends the feature values of the example to the window buffer. If the buffer
  then does not hold exactly \<open>window_size\<close> rows, nothing else happens. If it does, and no
  library call raises, exactly one training step is made: training mode, gradient reset, one
  forward pass on the tensor of the whole buffer, the loss against the tensor of this call's
  target, the backward pass and one optimizer step.
\<close>

theorem rolling_learn_one_buffers_then_trains:
  assumes "ensure_net T x s = (Inr (), s0)"
  shows "x_window (snd (rolling_learn_one T x y s)) = x_window s @ [dict_values x] \<and>
    (length (x_window s) + 1 \<noteq> window_size s \<longrightarrow>
       rolling_learn_one T x y s = (Inr Self, s0\<lparr>x_window := x_window s @ [dict_values x]\<rparr>)) \<and>
    (length (x_window s) + 1 = window_size s \<longrightarrow>
       (\<forall>n opt xt r out l g.
          net s0 = Some n \<and> optimizer s0 = Some opt \<and>
          list2tensor (x_window s @ [dict_values x]) (device s) = Inr xt \<and> y = Num r \<and>
          net_forward T (params n) True xt = Inr out \<and>
          loss_fn T out [[r]] = Inr l \<and> loss_backward T l None = Inr g \<longrightarrow>
          rolling_learn_one T x y s =
            (Inr Self,
             s0\<lparr>net := Some \<lparr>params = snd (opt_step T opt (params n) (Some g)),
                             grads = Some g, training = True\<rparr>,
                optimizer := Some (fst (opt_step T opt (params n) (Some g))),
                calls := calls s0 @
                  [Train, ZeroGrad, Forward True xt, Loss [[r]], Backward, Step],
                x_window := x_window s @ [dict_values x]\<rparr>)))"
proof (intro conjI impI allI)
  show "x_window (snd (rolling_learn_one T x y s)) = x_window s @ [dict_values x]"
    by (rule rolling_learn_one_appends [OF assms])
next
  assume "length (x_window s) + 1 \<noteq> window_size s"
  then show "rolling_learn_one T x y s =
      (Inr Self, s0\<lparr>x_window := x_window s @ [dict_values x]\<rparr>)"
    by (rule rolling_learn_one_not_full [OF assms])
next
  fix n opt xt r out l g
  assume full: "length (x_window s) + 1 = window_size s"
    and h: "net s0 = Some n \<and> optimizer s0 = Some opt \<and>
          list2tensor (x_window s @ [dict_values x]) (device s) = Inr xt \<and> y = Num r \<and>
          net_forward T (params n) True xt = Inr out \<and>
          loss_fn T out [[r]] = Inr l \<and> loss_backward T l None = Inr g"
  let ?s1 = "s0\<lparr>x_window := x_window s @ [dict_values x]\<rparr>"
  let ?s2 = "s0\<lparr>x_window := x_window s @ [dict_values x],
      net := Some (n\<lparr>training := True\<rparr>), calls := calls s0 @ [Train]\<rparr>"
  have cy: "scalar2tensor y (device s) = Inr [[r]]"
    using h by (simp add: scalar2tensor_def)
  have tr: "net_train ?s1 = (Inr (), ?s2)"
    using h by (simp add: net_train_def)
  have st: "learn_one_step T xt [[r]] ?s2 =
      (Inr (),
       ?s2\<lparr>net := Some ((n\<lparr>training := True\<rparr>)\<lparr>params := snd (opt_step T opt (params n) (Some g)), grads := Some g\<rparr>),
          optimizer := Some (fst (opt_step T opt (params n) (Some g))),
          calls := calls ?s2 @ [ZeroGrad, Forward True xt, Loss [[r]], Backward, Step]\<rparr>)"
    using learn_one_step_ok [of ?s2 "n\<lparr>training := True\<rparr>" opt T xt out "[[r]]" l g] h
    by simp
  show "rolling_learn_one T x y s =
            (Inr Self,
             s0\<lparr>net := Some \<lparr>params = snd (opt_step T opt (params n) (Some g)),
                             grads = Some g, training = True\<rparr>,
                optimizer := Some (fst (opt_step T opt (params n) (Some g))),
                calls := calls s0 @
                  [Train, ZeroGrad, Forward True xt, Loss [[r]], Backward, Step],
                x_window := x_window s @ [dict_values x]\<rparr>)"
    using h by (simp add: rolling_learn_one_full [OF assms full] Let_def scalar2tensor_def tr st)
qed

theorem rolling_learn_one_buffers_then_trains_witness:
  "rolling_learn_one toy [(''a'', Num 2)] (Num 20)
     (one_buffered 2 False) =
   (Inr Self,
    \<lparr>net = Some \<lparr>params = (56 / 5, 1), grads = Some (- 102), training = True\<rparr>,
     optimizer = Some (1 / 10, 1), device = ''cpu'', learning_rate = 1 / 10,
     calls = [Construct 1, Train, ZeroGrad, Forward True [[1], [2]], Loss [[20]],
        Backward, Step],
     x_window = [[Num 1], [Num 2]], window_size = 2, append_predict = False\<rparr>) \<and>
   rolling_learn_one toy [(''a'', Num 2)] (Num 20)
     (one_buffered 3 False) =
   (Inr Self,
    \<lparr>net = Some \<lparr>params = (1, 1), grads = None, training = True\<rparr>,
     optimizer = Some (1 / 10, 0), device = ''cpu'', learning_rate = 1 / 10,
     calls = [Construct 1],
     x_window = [[Num 1], [Num 2]], window_size = 3, append_predict = False\<rparr>)"
proof -
  let ?s = "one_buffered 2 False"
  let ?t = "one_buffered 3 False"
  have gs: "ensure_net toy [(''a'', Num 2)] ?s = (Inr (), ?s)"
    by (simp add: one_buffered_eq ensure_net_def)
  have gt: "ensure_net toy [(''a'', Num 2)] ?t = (Inr (), ?t)"
    by (simp add: one_buffered_eq ensure_net_def)
  have full: "rolling_learn_one toy [(''a'', Num 2)] (Num 20) ?s =
   (Inr Self,
    \<lparr>net = Some \<lparr>params = (56 / 5, 1), grads = Some (- 102), training = True\<rparr>,
     optimizer = Some (1 / 10, 1), device = ''cpu'', learning_rate = 1 / 10,
     calls = [Construct 1, Train, ZeroGrad, Forward True [[1], [2]], Loss [[20]],
        Backward, Step],
     x_window = [[Num 1], [Num 2]], window_size = 2, append_predict = False\<rparr>)"
    using rolling_learn_one_buffers_then_trains [OF gs, of "Num 20", THEN conjunct2,
        THEN conjunct2, rule_format,
        of "\<lparr>params = (1, 1), grads = None, training = True\<rparr>" "(1 / 10, 0)"
          "[[1], [2]]" 20 "(3, 3)" "- 102" "- 102"]
    by (simp add: one_buffered_eq dict_values_def list2tensor_def toy_def toy_forward_def
        toy_loss_def toy_backward_def toy_step_def)
  have part: "rolling_learn_one toy [(''a'', Num 2)] (Num 20) ?t =
   (Inr Self,
    \<lparr>net = Some \<lparr>params = (1, 1), grads = None, training = True\<rparr>,
     optimizer = Some (1 / 10, 0), device = ''cpu'', learning_rate = 1 / 10,
     calls = [Construct 1],
     x_window = [[Num 1], [Num 2]], window_size = 3, append_predict = False\<rparr>)"
    using rolling_learn_one_buffers_then_trains [OF gt, of "Num 20", THEN conjunct2,
        THEN conjunct1]
    by (simp add: one_buffered_eq dict_values_def)
  show ?thesis using full part by simp
qed

section \<open>The placeholder prediction\<close>

text \<open>
  Claim C3. A \<open>predict_one\<close> of the rolling adapter is specified to return 0 without
  invoking the network while the buffer holds fewer than \<open>window_size\<close> rows, and to
  invoke the network from the first call on a full buffer on, under both settings of
  \<open>append_predict\<close>. The first half holds: past the construction guard a call on a short
  buffer returns 0 and makes no forward pass. The second half fails with \<open>append_predict\<close>
  disabled: the first call on a full buffer raises \<^verbatim>\<open>AttributeError\<close> on
  \<^verbatim>\<open>x.values()\<close> and makes no forward pass either, and since it leaves the adapter as
  the guard left it, the same holds for the call repeated.
\<close>

theorem rolling_predict_one_full_window_skips_network:
  assumes "ensure_net T x s = (Inr (), s0)"
  shows "(length (x_window s) < window_size s \<longrightarrow>
            rolling_predict_one T x s = (Inr 0, s0) \<and>
            filter is_Forward (calls s0) = filter is_Forward (calls s)) \<and>
         (length (x_window s) = window_size s \<and> \<not> append_predict s \<longrightarrow>
            rolling_predict_one T x s = (Inl AttributeError, s0) \<and>
            rolling_predict_one T x s0 = (Inl AttributeError, s0) \<and>
            filter is_Forward (calls s0) = filter is_Forward (calls s))"
proof -
  have w: "x_window s0 = x_window s" "window_size s0 = window_size s"
    "append_predict s0 = append_predict s"
    using ensure_net_window [OF assms] by simp_all
  have f: "filter is_Forward (calls s0) = filter is_Forward (calls s)"
    by (rule ensure_net_no_forward [OF assms])
  have g0: "ensure_net T x s0 = (Inr (), s0)"
    by (rule ensure_net_idem [OF assms])
  have short: "length (x_window s) < window_size s \<Longrightarrow>
      rolling_predict_one T x s = (Inr 0, s0)"
    using assms w by (simp add: rolling_predict_one_def)
  have v: "obj_values (Rows (x_window s0)) = Inl AttributeError"
    by simp
  have full: "length (x_window s) = window_size s \<and> \<not> append_predict s \<Longrightarrow>
      rolling_predict_one T x s = (Inl AttributeError, s0)"
    using assms w v by (simp add: rolling_predict_one_def)
  have again: "length (x_window s) = window_size s \<and> \<not> append_predict s \<Longrightarrow>
      rolling_predict_one T x s0 = (Inl AttributeError, s0)"
    using g0 w v by (simp add: rolling_predict_one_def)
  show ?thesis
    using f short full again by blast
qed

theorem rolling_predict_one_full_window_skips_network_witness:
  "rolling_predict_one toy [(''a'', Num 3)] (one_buffered 2 False) =
     (Inr 0, one_buffered 2 False) \<and>
   length (x_window (spec_scenario False)) = window_size (spec_scenario False) \<and>
   rolling_predict_one toy [(''a'', Num 3)] (spec_scenario False) =
     (Inl AttributeError, spec_scenario False) \<and>
   filter is_Forward (calls (snd (rolling_predict_one toy [(''a'', Num 3)]
      (spec_scenario False)))) = [Forward True [[1], [2]]]"
proof -
  have g1: "ensure_net toy [(''a'', Num 3)] (one_buffered 2 False) =
      (Inr (), one_buffered 2 False)"
    by (simp add: one_buffered_eq ensure_net_def)
  have g2: "ensure_net toy [(''a'', Num 3)] (spec_scenario False) =
      (Inr (), spec_scenario False)"
    by (simp add: spec_scenario_eq ensure_net_def)
  have l1: "length (x_window (one_buffered 2 False)) < window_size (one_buffered 2 False)"
    by (simp add: one_buffered_eq)
  have l2: "length (x_window (spec_scenario False)) = window_size (spec_scenario False) \<and>
      \<not> append_predict (spec_scenario False)"
    by (simp add: spec_scenario_eq)
  have c: "filter is_Forward (calls (spec_scenario False)) = [Forward True [[1], [2]]]"
    by (simp add: spec_scenario_eq)
  have short: "rolling_predict_one toy [(''a'', Num 3)] (one_buffered 2 False) =
      (Inr 0, one_buffered 2 False)"
    using rolling_predict_one_full_window_skips_network [OF g1, THEN conjunct1, rule_format,
        OF l1]
    by simp
  have full: "rolling_predict_one toy [(''a'', Num 3)] (spec_scenario False) =
      (Inl AttributeError, spec_scenario False)"
    using rolling_predict_one_full_window_skips_network [OF g2, THEN conjunct2, rule_format,
        OF l2]
    by simp
  show ?thesis
    using short full l2 c by simp
qed

section \<open>Network and optimizer are constructed once\<close>

text \<open>
  Claim C4. For both adapters and every sequence of calls on a new adapter, the trace of
  library calls is either empty or begins with the only construction, so no forward pass
  or training step precedes the construction and nothing is constructed twice. If the
  builders succeed for the width of the first call's feature map, network and optimizer are
  constructed during that first call, with that width, and no later call constructs again.
\<close>

theorem network_constructed_once:
  "construct_precedes_use (calls (regressor_run T cs (Regressor lr dev))) \<and>
   construct_precedes_use (calls (rolling_run T cs (RollingRegressor lr dev ws ap))) \<and>
   (\<forall>p opt.
      build_fn T (length (call_features c)) = Inr p \<and> optimizer_fn T p lr = Inr opt \<longrightarrow>
      constructed_once (length (call_features c))
        (calls (regressor_run T (c # cs) (Regressor lr dev))) \<and>
      constructed_once (length (call_features c))
        (calls (rolling_run T (c # cs) (RollingRegressor lr dev ws ap))))"
proof (intro conjI allI impI)
  show "construct_precedes_use (calls (regressor_run T cs (Regressor lr dev)))"
    using regressor_run_unbuilt [OF unbuilt_Regressor, of T cs lr dev]
    by (auto simp: built_def constructed_once_precedes)
      (simp add: Regressor_def construct_precedes_use_def)
  show "construct_precedes_use (calls (rolling_run T cs (RollingRegressor lr dev ws ap)))"
    using rolling_run_unbuilt [OF unbuilt_RollingRegressor, of T cs lr dev ws ap]
    by (auto simp: built_def constructed_once_precedes)
      (simp add: RollingRegressor_def construct_precedes_use_def)
next
  fix p opt
  assume h: "build_fn T (length (call_features c)) = Inr p \<and> optimizer_fn T p lr = Inr opt"
  have "built (length (call_features c)) (regressor_call T c (Regressor lr dev))"
    using regressor_first_call [OF unbuilt_Regressor, of T c p lr dev opt] h
    by (simp add: Regressor_def)
  then show "constructed_once (length (call_features c))
        (calls (regressor_run T (c # cs) (Regressor lr dev)))"
    using built_regressor_run [of _ _ T cs] by (simp add: built_def)
  have "built (length (call_features c)) (rolling_call T c (RollingRegressor lr dev ws ap))"
    using rolling_first_call [OF unbuilt_RollingRegressor, of T c p lr dev ws ap opt] h
    by (simp add: RollingRegressor_def)
  then show "constructed_once (length (call_features c))
        (calls (rolling_run T (c # cs) (RollingRegressor lr dev ws ap)))"
    using built_rolling_run [of _ _ T cs] by (simp add: built_def)
qed

theorem network_constructed_once_witness:
  "construct_precedes_use (calls (regressor_run toy_unbuildable
      [Predict [(''a'', Num 1)], Learn [(''a'', Num 2)] (Num 10)] fresh_regressor)) \<and>
   construct_precedes_use (calls (rolling_run toy
      [Learn [(''a'', Num 1)] (Num 10), Learn [(''a'', Num 2)] (Num 20)]
      (fresh_rolling 2 False))) \<and>
   constructed_once 1 (calls (regressor_run toy
      [Learn [(''a'', Num 2)] (Num 10), Predict [(''a'', Num 1)]] fresh_regressor)) \<and>
   constructed_once 1 (calls (rolling_run toy
      [Learn [(''a'', Num 1)] (Num 10), Learn [(''a'', Num 2)] (Num 20)]
      (fresh_rolling 2 False)))"
proof -
  have a: "construct_precedes_use (calls (regressor_run toy_unbuildable
      [Predict [(''a'', Num 1)], Learn [(''a'', Num 2)] (Num 10)] fresh_regressor))"
    using network_constructed_once
      [where T = toy_unbuildable
         and cs = "[Predict [(''a'', Num 1)], Learn [(''a'', Num 2)] (Num 10)]"
         and lr = "1 / 10" and dev = "''cpu''", THEN conjunct1]
    by (simp only: fresh_regressor_def)
  have b: "construct_precedes_use (calls (rolling_run toy
      [Learn [(''a'', Num 1)] (Num 10), Learn [(''a'', Num 2)] (Num 20)]
      (fresh_rolling 2 False)))"
    using network_constructed_once
      [where T = toy
         and cs = "[Learn [(''a'', Num 1)] (Num 10), Learn [(''a'', Num 2)] (Num 20)]"
         and lr = "1 / 10" and dev = "''cpu''" and ws = 2 and ap = False,
         THEN conjunct2, THEN conjunct1]
    by (simp only: fresh_rolling_def)
  have c: "constructed_once 1 (calls (regressor_run toy
        [Learn [(''a'', Num 2)] (Num 10), Predict [(''a'', Num 1)]] fresh_regressor)) \<and>
      constructed_once 1 (calls (rolling_run toy
        [Learn [(''a'', Num 1)] (Num 10), Learn [(''a'', Num 2)] (Num 20)]
        (fresh_rolling 2 False)))"
  proof
    show "constructed_once 1 (calls (regressor_run toy
        [Learn [(''a'', Num 2)] (Num 10), Predict [(''a'', Num 1)]] fresh_regressor))"
      using network_constructed_once
        [where T = toy and c = "Learn [(''a'', Num 2)] (Num 10)"
           and cs = "[Predict [(''a'', Num 1)]]"
           and lr = "1 / 10" and dev = "''cpu''",
           THEN conjunct2, THEN conjunct2, rule_format, of "(1, 1)" "(1 / 10, 0)"]
      by (simp add: fresh_regressor_def toy_def)
    show "constructed_once 1 (calls (rolling_run toy
        [Learn [(''a'', Num 1)] (Num 10), Learn [(''a'', Num 2)] (Num 20)]
        (fresh_rolling 2 False)))"
      using network_constructed_once
        [where T = toy and c = "Learn [(''a'', Num 1)] (Num 10)"
           and cs = "[Learn [(''a'', Num 2)] (Num 20)]"
           and lr = "1 / 10" and dev = "''cpu''" and ws = 2 and ap = False,
           THEN conjunct2, THEN conjunct2, rule_format, of "(1, 1)" "(1 / 10, 0)"]
      by (simp add: fresh_rolling_def toy_def)
  qed
  show ?thesis using a b c by simp
qed

section \<open>Prediction leaves the parameters alone\<close>

text \<open>
  Claim C5. On an initialised \<open>Regressor\<close>, \<open>predict_one\<close> leaves the trainable
  parameters and the optimizer as they were, and \<open>predict_one\<close> called \<open>k\<close> times in a
  row with the same input returns the same result every time.
\<close>

theorem regressor_predict_one_pure:
  assumes "net s = Some n"
  shows "map_option params (net (snd (predict_one T x s))) = Some (params n) \<and>
         optimizer (snd (predict_one T x s)) = optimizer s \<and>
         predict_repeat T x k s = replicate k (fst (predict_one T x s))"
  using predict_one_keeps [OF assms, of T x] predict_repeat_same [OF assms, of T x k]
  by auto

theorem regressor_predict_one_pure_witness:
  "map_option params (net (snd (predict_one toy [(''a'', Num 2)] trained_regressor))) =
     Some (21 / 5, 1) \<and>
   optimizer (snd (predict_one toy [(''a'', Num 2)] trained_regressor)) = Some (1 / 10, 1) \<and>
   predict_repeat toy [(''a'', Num 2)] (Suc (Suc (Suc 0))) trained_regressor =
     [Inr (42 / 5), Inr (42 / 5), Inr (42 / 5)]"
proof -
  have n: "net trained_regressor =
      Some \<lparr>params = (21 / 5, 1), grads = Some (- 32), training = False\<rparr>"
    by (simp add: trained_regressor_eq)
  have o: "optimizer trained_regressor = Some (1 / 10, 1)"
    by (simp add: trained_regressor_eq)
  have r: "fst (predict_one toy [(''a'', Num 2)] trained_regressor) = Inr (42 / 5)"
    by (simp add: predict_one_ready [OF n]) (simp add: trained_regressor_eq run_defs)
  show ?thesis
    using regressor_predict_one_pure [OF n, of toy "[(''a'', Num 2)]" "Suc (Suc (Suc 0))"]
    by (simp add: r o)
qed

section \<open>A failed learning step\<close>

text \<open>
  Claim C6, as amended. A \<open>learn_one\<close> call of either adapter that raises makes no
  optimizer step; if the network was constructed before the call, its trainable parameters
  and the optimizer are those of before the call. The training flag and the accumulated
  gradients are not restored.
\<close>

theorem failed_learn_one_applies_no_step:
  "(fst (learn_one T x y s) = Inl e \<longrightarrow>
      count_list (calls (snd (learn_one T x y s))) Step = count_list (calls s) Step \<and>
      (\<forall>n. net s = Some n \<longrightarrow>
         map_option params (net (snd (learn_one T x y s))) = Some (params n) \<and>
         optimizer (snd (learn_one T x y s)) = optimizer s)) \<and>
   (fst (rolling_learn_one T x y w) = Inl e' \<longrightarrow>
      count_list (calls (snd (rolling_learn_one T x y w))) Step = count_list (calls w) Step \<and>
      (\<forall>n. net w = Some n \<longrightarrow>
         map_option params (net (snd (rolling_learn_one T x y w))) = Some (params n) \<and>
         optimizer (snd (rolling_learn_one T x y w)) = optimizer w))"
proof (intro conjI impI allI)
  assume "fst (learn_one T x y s) = Inl e"
  then have eq: "learn_one T x y s = (Inl e, snd (learn_one T x y s))"
    by (simp add: prod_eq_iff)
  show "count_list (calls (snd (learn_one T x y s))) Step = count_list (calls s) Step"
    using learn_one_raises_count [OF eq] by simp
  fix n
  assume n: "net s = Some n"
  show "map_option params (net (snd (learn_one T x y s))) = Some (params n)"
    and "optimizer (snd (learn_one T x y s)) = optimizer s"
    using learn_one_raises_params [OF eq n] by simp_all
next
  assume "fst (rolling_learn_one T x y w) = Inl e'"
  then have eq: "rolling_learn_one T x y w = (Inl e', snd (rolling_learn_one T x y w))"
    by (simp add: prod_eq_iff)
  show "count_list (calls (snd (rolling_learn_one T x y w))) Step = count_list (calls w) Step"
    using rolling_learn_one_raises_count [OF eq] by simp
  fix n
  assume n: "net w = Some n"
  show "map_option params (net (snd (rolling_learn_one T x y w))) = Some (params n)"
    and "optimizer (snd (rolling_learn_one T x y w)) = optimizer w"
    using rolling_learn_one_raises_params [OF eq n] by simp_all
qed

theorem failed_learn_one_applies_no_step_witness:
  "fst (learn_one toy [(''a'', Num 1), (''b'', Num 2)] (Num 10) trained_regressor) =
     Inl RuntimeError \<and>
   count_list (calls (snd (learn_one toy [(''a'', Num 1), (''b'', Num 2)] (Num 10)
      trained_regressor))) Step = 1 \<and>
   map_option params (net (snd (learn_one toy [(''a'', Num 1), (''b'', Num 2)] (Num 10)
      trained_regressor))) = Some (21 / 5, 1) \<and>
   optimizer (snd (learn_one toy [(''a'', Num 1), (''b'', Num 2)] (Num 10)
      trained_regressor)) = Some (1 / 10, 1) \<and>
   fst (rolling_learn_one toy [(''a'', Num 1), (''b'', Num 2)] (Num 20) (one_buffered 2 False)) =
     Inl ValueError \<and>
   count_list (calls (snd (rolling_learn_one toy [(''a'', Num 1), (''b'', Num 2)] (Num 20)
      (one_buffered 2 False)))) Step = 0 \<and>
   map_option params (net (snd (rolling_learn_one toy [(''a'', Num 1), (''b'', Num 2)] (Num 20)
      (one_buffered 2 False)))) = Some (1, 1) \<and>
   optimizer (snd (rolling_learn_one toy [(''a'', Num 1), (''b'', Num 2)] (Num 20)
      (one_buffered 2 False))) = Some (1 / 10, 0)"
proof -
  have e1: "fst (learn_one toy [(''a'', Num 1), (''b'', Num 2)] (Num 10) trained_regressor) =
      Inl RuntimeError"
    by (simp add: trained_regressor_eq) (simp add: run_defs)
  have e2: "fst (rolling_learn_one toy [(''a'', Num 1), (''b'', Num 2)] (Num 20)
      (one_buffered 2 False)) = Inl ValueError"
    by (simp add: one_buffered_eq) (simp add: run_defs)
  have n1: "net trained_regressor =
      Some \<lparr>params = (21 / 5, 1), grads = Some (- 32), training = False\<rparr>"
    by (simp add: trained_regressor_eq)
  have n2: "net (one_buffered 2 False) =
      Some \<lparr>params = (1, 1), grads = None, training = True\<rparr>"
    by (simp add: one_buffered_eq)
  have c1: "count_list (calls trained_regressor) Step = 1"
    by (simp add: trained_regressor_eq)
  have c2: "count_list (calls (one_buffered 2 False)) Step = 0"
    by (simp add: one_buffered_eq)
  have o1: "optimizer trained_regressor = Some (1 / 10, 1)"
    by (simp add: trained_regressor_eq)
  have o2: "optimizer (one_buffered 2 False) = Some (1 / 10, 0)"
    by (simp add: one_buffered_eq)
  show ?thesis
    using failed_learn_one_applies_no_step
      [where T = toy and x = "[(''a'', Num 1), (''b'', Num 2)]" and y = "Num 10"
         and s = trained_regressor and e = RuntimeError,
         THEN conjunct1, rule_format, OF e1]
      failed_learn_one_applies_no_step
      [where T = toy and x = "[(''a'', Num 1), (''b'', Num 2)]" and y = "Num 20"
         and w = "one_buffered 2 False" and e' = ValueError,
         THEN conjunct2, rule_format, OF e2]
    by (simp add: e1 e2 n1 n2 c1 c2 o1 o2)
qed

text \<open>
  The claim as written fails: a \<open>learn_one\<close> with a feature map of the wrong width raises
  in the forward pass, after the training flag was set and the gradients were reset, and the
  network keeps both changes.
\<close>

theorem failed_learn_one_changes_network:
  "net trained_regressor =
     Some \<lparr>params = (21 / 5, 1), grads = Some (- 32), training = False\<rparr> \<and>
   learn_one toy [(''a'', Num 1), (''b'', Num 2)] (Num 10) trained_regressor =
     (Inl RuntimeError,
      trained_regressor
        \<lparr>net := Some \<lparr>params = (21 / 5, 1), grads = None, training = True\<rparr>,
         calls := calls trained_regressor @ [Train, ZeroGrad, Forward True [[1, 2]]]\<rparr>)"
  by (simp add: trained_regressor_eq) (simp add: run_defs)

section \<open>The training step of the single-example adapter\<close>

text \<open>
  Claim C7. On an initialised \<open>Regressor\<close>, \<open>learn_one(x, y)\<close> with numeric \<open>x\<close> and
  \<open>y\<close>, when the forward pass, the loss and the backward pass succeed, converts \<open>x\<close> and
  \<open>y\<close>, sets training mode, resets the gradients, makes one forward pass, computes the
  loss against the converted target, backpropagates, makes exactly one optimizer step, and
  returns the adapter itself.
\<close>

theorem regressor_learn_one_trains_once:
  assumes "net s = Some n" "optimizer s = Some opt"
    "list_all numeric (dict_values x)" "y = Num r"
    "net_forward T (params n) True [map num_of (dict_values x)] = Inr out"
    "loss_fn T out [[r]] = Inr l"
    "loss_backward T l None = Inr g"
  shows "learn_one T x y s =
           (Inr Self,
            s\<lparr>net := Some \<lparr>params = snd (opt_step T opt (params n) (Some g)),
                           grads = Some g, training = True\<rparr>,
              optimizer := Some (fst (opt_step T opt (params n) (Some g))),
              calls := calls s @
                [Train, ZeroGrad, Forward True [map num_of (dict_values x)], Loss [[r]],
                 Backward, Step]\<rparr>)"
proof -
  let ?xt = "[map num_of (dict_values x)]"
  let ?s1 = "s\<lparr>net := Some (n\<lparr>training := True\<rparr>), calls := calls s @ [Train]\<rparr>"
  have g: "ensure_net T x s = (Inr (), s)"
    using assms(1) by (rule ensure_net_ready)
  have cx: "dict2tensor x (device s) = Inr ?xt"
    using assms(3) by (simp add: dict2tensor_def)
  have cy: "scalar2tensor y (device s) = Inr [[r]]"
    using assms(4) by (simp add: scalar2tensor_def)
  have tr: "net_train s = (Inr (), ?s1)"
    using assms(1) by (simp add: net_train_def)
  have st: "learn_one_step T ?xt [[r]] ?s1 =
      (Inr (),
       ?s1\<lparr>net := Some ((n\<lparr>training := True\<rparr>)\<lparr>params := snd (opt_step T opt (params n) (Some g)), grads := Some g\<rparr>),
          optimizer := Some (fst (opt_step T opt (params n) (Some g))),
          calls := calls ?s1 @ [ZeroGrad, Forward True ?xt, Loss [[r]], Backward, Step]\<rparr>)"
    using learn_one_step_ok [of ?s1 "n\<lparr>training := True\<rparr>" opt T ?xt out "[[r]]" l g] assms
    by simp
  show ?thesis
    by (simp add: learn_one_def g cx cy tr st)
qed

theorem regressor_learn_one_trains_once_witness:
  "learn_one toy [(''a'', Num 2)] (Num 10)
     ready_regressor =
   (Inr Self,
    \<lparr>net = Some \<lparr>params = (21 / 5, 1), grads = Some (- 32), training = True\<rparr>,
     optimizer = Some (1 / 10, 1), device = ''cpu'', learning_rate = 1 / 10,
     calls = [Construct 1, Eval, Forward False [[1]], Train, ZeroGrad, Forward True [[2]],
        Loss [[10]], Backward, Step]\<rparr>)"
  using regressor_learn_one_trains_once
    [where T = toy and s = ready_regressor
       and n = "\<lparr>params = (1, 1), grads = None, training = False\<rparr>"
       and opt = "(1 / 10, 0)" and x = "[(''a'', Num 2)]" and y = "Num 10" and r = 10
       and out = "(2, 2)" and l = "- 32" and g = "- 32"]
  by (simp add: ready_regressor_eq dict_values_def toy_def toy_forward_def toy_loss_def
      toy_backward_def toy_step_def)

section \<open>Prediction that appends to the window\<close>

text \<open>
  Claim C8. With \<open>append_predict\<close> enabled and a buffer of exactly \<open>window_size\<close> rows,
  \<open>predict_one\<close> appends the feature values of the example to the stored buffer, which
  keeps the added row whatever happens afterwards, and, when the grown buffer converts to a
  tensor, evaluates the forward pass on it in evaluation mode.
\<close>

theorem rolling_predict_one_append_predict:
  assumes "ensure_net T x s = (Inr (), s0)" "append_predict s"
    "length (x_window s) = window_size s"
  shows "x_window (snd (rolling_predict_one T x s)) = x_window s @ [dict_values x] \<and>
    (\<forall>n xt. net s0 = Some n \<and>
       list2tensor (x_window s @ [dict_values x]) (device s) = Inr xt \<longrightarrow>
       rolling_predict_one T x s =
         (case net_forward T (params n) False xt of
            Inl e \<Rightarrow> Inl e
          | Inr out \<Rightarrow> tensor_item T out,
          s0\<lparr>net := Some (n\<lparr>training := False\<rparr>),
             calls := calls s0 @ [Eval, Forward False xt],
             x_window := x_window s @ [dict_values x]\<rparr>))"
proof (intro conjI allI impI)
  show "x_window (snd (rolling_predict_one T x s)) = x_window s @ [dict_values x]"
    by (simp add: rolling_predict_one_append_branch [OF assms(1) assms(3) assms(2)]
        eval_and_predict_window split: sum.splits)
next
  fix n xt
  assume h: "net s0 = Some n \<and>
       list2tensor (x_window s @ [dict_values x]) (device s) = Inr xt"
  then show "rolling_predict_one T x s =
         (case net_forward T (params n) False xt of
            Inl e \<Rightarrow> Inl e
          | Inr out \<Rightarrow> tensor_item T out,
          s0\<lparr>net := Some (n\<lparr>training := False\<rparr>),
             calls := calls s0 @ [Eval, Forward False xt],
             x_window := x_window s @ [dict_values x]\<rparr>)"
    using eval_and_predict_ready
      [of "s0\<lparr>x_window := x_window s @ [dict_values x]\<rparr>" n T xt]
    by (simp add: rolling_predict_one_append_branch [OF assms(1) assms(3) assms(2)])
qed

theorem rolling_predict_one_append_predict_witness:
  "rolling_predict_one toy [(''a'', Num 3)] (spec_scenario True) =
     (Inr (336 / 5),
      \<lparr>net = Some \<lparr>params = (56 / 5, 1), grads = Some (- 102), training = False\<rparr>,
       optimizer = Some (1 / 10, 1), device = ''cpu'', learning_rate = 1 / 10,
       calls = [Construct 1, Train, ZeroGrad, Forward True [[1], [2]], Loss [[20]],
          Backward, Step, Eval, Forward False [[1], [2], [3]]],
       x_window = [[Num 1], [Num 2], [Num 3]], window_size = 2, append_predict = True\<rparr>)"
proof -
  have g: "ensure_net toy [(''a'', Num 3)] (spec_scenario True) = (Inr (), spec_scenario True)"
    by (simp add: spec_scenario_eq ensure_net_def)
  have a: "append_predict (spec_scenario True)"
    by (simp add: spec_scenario_eq)
  have f: "length (x_window (spec_scenario True)) = window_size (spec_scenario True)"
    by (simp add: spec_scenario_eq)
  show ?thesis
    using rolling_predict_one_append_predict [OF g a f, THEN conjunct2, rule_format,
        of "\<lparr>params = (56 / 5, 1), grads = Some (- 102), training = True\<rparr>"
          "[[1], [2], [3]]"]
    by (simp add: spec_scenario_eq dict_values_def list2tensor_def toy_def toy_forward_def)
qed

section \<open>No training after the window has outgrown its size\<close>

text \<open>
  Claim C9. Once a rolling adapter, reached by calls from a new one, holds more than
  \<open>window_size\<close> rows, it holds more than \<open>window_size\<close> rows after any further calls,
  none of which makes a library call or changes network or optimizer; every later
  \<open>learn_one\<close> only appends its row and returns the adapter.
\<close>

theorem overgrown_window_never_trains:
  assumes "s = rolling_run T pre (RollingRegressor lr dev ws ap)"
    "window_size s < length (x_window s)"
  shows "window_size (rolling_run T cs s) < length (x_window (rolling_run T cs s)) \<and>
         net (rolling_run T cs s) = net s \<and>
         optimizer (rolling_run T cs s) = optimizer s \<and>
         calls (rolling_run T cs s) = calls s \<and>
         rolling_learn_one T x y (rolling_run T cs s) =
           (Inr Self,
            (rolling_run T cs s)\<lparr>x_window := x_window (rolling_run T cs s) @ [dict_values x]\<rparr>)"
proof -
  have "s = RollingRegressor lr dev ws ap \<or> (\<exists>n. built n s)"
    using rolling_run_unbuilt [OF unbuilt_RollingRegressor, of T pre lr dev ws ap] assms(1)
    by simp
  moreover have "s \<noteq> RollingRegressor lr dev ws ap"
    using assms(2) by (auto simp: RollingRegressor_def)
  ultimately obtain n where n: "net s = Some n"
    by (auto simp: built_def)
  let ?s1 = "rolling_run T cs s"
  have r: "net ?s1 = Some n \<and> window_size ?s1 < length (x_window ?s1) \<and>
      optimizer ?s1 = optimizer s \<and> calls ?s1 = calls s"
    by (rule overgrown_run [OF n assms(2)])
  then have nf: "length (x_window ?s1) + 1 \<noteq> window_size ?s1" by simp
  have "rolling_learn_one T x y ?s1 =
      (Inr Self, ?s1\<lparr>x_window := x_window ?s1 @ [dict_values x]\<rparr>)"
    using r by (intro rolling_learn_one_not_full [OF ensure_net_ready nf]) simp
  then show ?thesis using r n by simp
qed

theorem overgrown_window_never_trains_witness:
  "window_size overgrown < length (x_window overgrown) \<and>
   calls (rolling_run toy [Learn [(''a'', Num 4)] (Num 40), Predict [(''a'', Num 5)]] overgrown) =
     calls overgrown \<and>
   net (rolling_run toy [Learn [(''a'', Num 4)] (Num 40), Predict [(''a'', Num 5)]] overgrown) =
     net overgrown \<and>
   rolling_learn_one toy [(''a'', Num 6)] (Num 60)
      (rolling_run toy [Learn [(''a'', Num 4)] (Num 40), Predict [(''a'', Num 5)]] overgrown) =
     (Inr Self,
      (rolling_run toy [Learn [(''a'', Num 4)] (Num 40), Predict [(''a'', Num 5)]] overgrown)
        \<lparr>x_window :=
           x_window (rolling_run toy [Learn [(''a'', Num 4)] (Num 40), Predict [(''a'', Num 5)]]
             overgrown) @ [[Num 6]]\<rparr>)"
proof -
  have r: "overgrown =
      rolling_run toy
        [Learn [(''a'', Num 1)] (Num 10), Learn [(''a'', Num 2)] (Num 20),
         Predict [(''a'', Num 3)]]
        (RollingRegressor (1 / 10) ''cpu'' 2 True)"
    by (simp only: overgrown_def fresh_rolling_def)
  have l: "window_size overgrown < length (x_window overgrown)"
    by (simp add: overgrown_eq)
  show ?thesis
    using overgrown_window_never_trains [OF r l,
        of "[Learn [(''a'', Num 4)] (Num 40), Predict [(''a'', Num 5)]]"
          "[(''a'', Num 6)]" "Num 60"] l
    by (simp add: dict_values_def)
qed

section \<open>A learning call that only buffers\<close>

text \<open>
  Claim C10, as amended. A \<open>learn_one\<close> of the rolling adapter after which the buffer
  length differs from \<open>window_size\<close> does not depend on the target. If the network was
  constructed before the call, the call changes only the buffer, by the one appended row:
  network, optimizer and the result of a forward pass on any fixed input are unchanged.
\<close>

theorem rolling_learn_one_only_buffers:
  "length (x_window s) + 1 \<noteq> window_size s \<longrightarrow>
     rolling_learn_one T x y s = rolling_learn_one T x y' s \<and>
     (\<forall>n. net s = Some n \<longrightarrow>
        rolling_learn_one T x y s = (Inr Self, s\<lparr>x_window := x_window s @ [dict_values x]\<rparr>) \<and>
        net (snd (rolling_learn_one T x y s)) = Some n \<and>
        optimizer (snd (rolling_learn_one T x y s)) = optimizer s \<and>
        fst (net_call T xt (snd (rolling_learn_one T x y s))) = fst (net_call T xt s))"
proof (intro impI conjI allI)
  assume nf: "length (x_window s) + 1 \<noteq> window_size s"
  show "rolling_learn_one T x y s = rolling_learn_one T x y' s"
    by (rule rolling_learn_one_ignores_target [OF nf])
  fix n
  assume n: "net s = Some n"
  show eq: "rolling_learn_one T x y s =
      (Inr Self, s\<lparr>x_window := x_window s @ [dict_values x]\<rparr>)"
    by (rule rolling_learn_one_not_full [OF ensure_net_ready [OF n] nf])
  show "net (snd (rolling_learn_one T x y s)) = Some n"
    by (simp add: eq n)
  show "optimizer (snd (rolling_learn_one T x y s)) = optimizer s"
    by (simp add: eq)
  show "fst (net_call T xt (snd (rolling_learn_one T x y s))) = fst (net_call T xt s)"
    by (simp add: eq net_call_def n)
qed

theorem rolling_learn_one_only_buffers_witness:
  "rolling_learn_one toy [(''a'', Num 2)] (Num 20) (one_buffered 3 False) =
     (Inr Self, (one_buffered 3 False)\<lparr>x_window := [[Num 1], [Num 2]]\<rparr>) \<and>
   rolling_learn_one toy [(''a'', Num 2)] (Num 20) (one_buffered 3 False) =
     rolling_learn_one toy [(''a'', Num 2)] (Num 99) (one_buffered 3 False) \<and>
   fst (net_call toy [[5]]
      (snd (rolling_learn_one toy [(''a'', Num 2)] (Num 20) (one_buffered 3 False)))) =
     fst (net_call toy [[5]] (one_buffered 3 False))"
proof -
  have nf: "length (x_window (one_buffered 3 False)) + 1 \<noteq> window_size (one_buffered 3 False)"
    by (simp add: one_buffered_eq)
  have n: "net (one_buffered 3 False) =
      Some \<lparr>params = (1, 1), grads = None, training = True\<rparr>"
    by (simp add: one_buffered_eq)
  have w: "x_window (one_buffered 3 False) = [[Num 1]]"
    by (simp add: one_buffered_eq)
  show ?thesis
    using rolling_learn_one_only_buffers
      [where T = toy and x = "[(''a'', Num 2)]" and y = "Num 20" and y' = "Num 99"
         and s = "one_buffered 3 False" and xt = "[[5]]", rule_format, OF nf]
      n
    by (auto simp: w dict_values_def)
qed

text \<open>
  The claim as written fails on the first call: the buffer is not full afterwards, and the
  call has constructed the network and the optimizer.
\<close>

theorem first_learn_one_constructs_network:
  "length (x_window (fresh_rolling 3 False)) + 1 \<noteq> window_size (fresh_rolling 3 False) \<and>
   net (fresh_rolling 3 False) = None \<and> optimizer (fresh_rolling 3 False) = None \<and>
   rolling_learn_one toy [(''a'', Num 1)] (Num 10) (fresh_rolling 3 False) =
     (Inr Self,
      (fresh_rolling 3 False)
        \<lparr>net := Some \<lparr>params = (1, 1), grads = None, training = True\<rparr>,
         optimizer := Some (1 / 10, 0),
         calls := [Construct 1],
         x_window := [[Num 1]]\<rparr>)"
  by (simp add: run_defs)

end
